theory Spec2Isabelle
  imports Complex_Main "HOL-Library.Sublist"
begin

section \<open>Python values shared by the three services\<close>

text \<open>
  Exceptions are values.  Only the classes the handlers of the source distinguish
  are kept apart: \<open>SoftTimeLimitExceeded\<close> has handlers of its own in both workers,
  \<open>NameError\<close> is what an unbound module name raises, \<open>OverflowError\<close> is what
  \<open>datetime\<close> arithmetic raises out of range; every other exception is
  \<open>PyException\<close> with its message (what \<open>str(e)\<close> gives).
\<close>

datatype py_error =
    PyException string
  | SoftTimeLimitExceeded
  | NameError string
  | OverflowError

fun str_exc :: "py_error \<Rightarrow> string" where
  "str_exc (PyException m) = m"
| "str_exc SoftTimeLimitExceeded = []"
| "str_exc (NameError n) = ''name '' @ [CHR 0x27] @ n @ [CHR 0x27] @ '' is not defined''"
| "str_exc OverflowError = ''date value out of range''"

section \<open>The search window of \<open>EUMETSATPoller.query_new_files\<close>\<close>

text \<open>
  A naive \<open>datetime\<close> is the number of microseconds since 0001-01-01 00:00:00, between
  \<open>datetime.min\<close> and \<open>datetime.max\<close> (9999-12-31 23:59:59.999999, day 3652059 of the
  proleptic calendar).  A \<open>timedelta\<close> is a number of microseconds whose whole days lie
  within 999999999 of zero.  Both constructors and the subtraction raise
  \<open>OverflowError\<close> outside these ranges.
\<close>

type_synonym datetime = int
type_synonym timedelta = int

definition us_per_minute :: int where
  "us_per_minute = 60 * 1000000"

definition us_per_hour :: int where
  "us_per_hour = 60 * us_per_minute"

definition us_per_day :: int where
  "us_per_day = 24 * us_per_hour"

definition datetime_max :: datetime where
  "datetime_max = 3652059 * us_per_day - 1"

definition timedelta_ok :: "timedelta \<Rightarrow> bool" where
  "timedelta_ok d = (- 999999999 \<le> d div us_per_day \<and> d div us_per_day \<le> 999999999)"

definition timedelta_hours :: "int \<Rightarrow> py_error + timedelta" where
  "timedelta_hours h =
     (if timedelta_ok (h * us_per_hour) then Inr (h * us_per_hour) else Inl OverflowError)"

definition timedelta_minutes :: "int \<Rightarrow> py_error + timedelta" where
  "timedelta_minutes m =
     (if timedelta_ok (m * us_per_minute) then Inr (m * us_per_minute) else Inl OverflowError)"

definition datetime_sub :: "datetime \<Rightarrow> timedelta \<Rightarrow> py_error + datetime" where
  "datetime_sub t d =
     (if 0 \<le> t - d \<and> t - d \<le> datetime_max then Inr (t - d) else Inl OverflowError)"

text \<open>
  Lines 135 to 145 of \<open>poller.py\<close>: \<open>dtend = now - timedelta(hours=min_age_hours)\<close>,
  then \<open>dtstart = dtend - timedelta(minutes=lookback_minutes)\<close>.  The result is the pair
  \<open>(dtstart, dtend)\<close> handed to the catalog search.
\<close>

definition search_window :: "datetime \<Rightarrow> int \<Rightarrow> int \<Rightarrow> py_error + (datetime \<times> datetime)" where
  "search_window now min_age_hours lookback_minutes =
     (case timedelta_hours min_age_hours of
        Inl e \<Rightarrow> Inl e
      | Inr age \<Rightarrow>
          (case datetime_sub now age of
             Inl e \<Rightarrow> Inl e
           | Inr dtend \<Rightarrow>
               (case timedelta_minutes lookback_minutes of
                  Inl e \<Rightarrow> Inl e
                | Inr lookback \<Rightarrow>
                    (case datetime_sub dtend lookback of
                       Inl e \<Rightarrow> Inl e
                     | Inr dtstart \<Rightarrow> Inr (dtstart, dtend)))))"


section \<open>The manifest, the queues and the disk\<close>

text \<open>
  The status column holds one of nine string literals in the source; they are an
  enumeration here.
\<close>

datatype status =
    QUEUED | DOWNLOADING | DOWNLOADED | RETRY | FAILED
  | PROCESSING | COMPLETE | SKIPPED | PROCESSING_FAILED

text \<open>
  The SQL schema is not part of the source files.  A row of \<open>file_manifest\<close> is a
  partial map from the columns the three \<open>database.py\<close> files name to values; a column
  no statement has written yet is \<open>None\<close>.
\<close>

datatype column =
    c_file_id | c_timestamp | c_satellite | c_product_type | c_status | c_queued_at
  | c_file_size_mb | c_updated_at | c_download_attempt | c_error_message
  | c_raw_file_path | c_download_duration_sec | c_download_started_at | c_downloaded_at
  | c_processing_attempt | c_skip_reason | c_output_file_path | c_quality_score
  | c_missing_data_pct | c_saturation_pct | c_mean_solar_zenith
  | c_processing_duration_sec | c_processing_started_at | c_processed_at

datatype sqlval =
    Text string
  | IntV int
  | Num real
  | StatusV status
  | TimeV datetime

type_synonym row = "column \<rightharpoonup> sqlval"

record query_log_row =
  query_timestamp :: datetime
  files_found :: int
  files_new :: int
  query_duration_sec :: real
  query_status :: string
  query_error :: "string option"

record metrics_row =
  m_file_id :: string
  m_stage :: string
  m_duration_seconds :: real
  m_status :: string
  m_error_message :: "string option"

text \<open>The payload the poller sends to \<open>tasks.download_file\<close> (lines 426 to 433 of \<open>poller.py\<close>).\<close>

record download_task =
  dt_file_id :: string
  dt_timestamp :: string
  dt_satellite :: string
  dt_size_mb :: real
  dt_collection_id :: string
  dt_product_id :: string

text \<open>The payload the downloader sends to \<open>tasks.process_file\<close> (lines 237 to 243 of \<open>downloader/tasks.py\<close>).\<close>

record process_task =
  pt_file_id :: string
  pt_file_path :: string
  pt_main_file :: string
  pt_timestamp :: string
  pt_satellite :: string

datatype node = Dir | File

text \<open>
  Everything the services share.  \<open>status_trace\<close> and \<open>catalog_calls\<close> are
  observations, not program state: the first lists, in order, every status value a
  statement has written to a row of the manifest; the second lists the window of every
  catalog search made.  \<open>db_clock\<close> is what \<open>NOW()\<close> returns.  The two queues list the
  tasks sent to \<open>download_queue\<close> and \<open>processing_queue\<close>, oldest first;
  \<open>last_poll_status\<close> is the global of \<open>app.py\<close>.
\<close>

record world =
  file_manifest :: "row list"
  api_query_log :: "query_log_row list"
  processing_metrics :: "metrics_row list"
  download_queue :: "download_task list"
  processing_queue :: "process_task list"
  fs :: "string \<rightharpoonup> node"
  db_clock :: datetime
  status_trace :: "(string \<times> status) list"
  catalog_calls :: "(datetime \<times> datetime) list"
  last_poll_status :: string

definition has_file :: "string \<Rightarrow> row \<Rightarrow> bool" where
  "has_file fid r = (r c_file_id = Some (Text fid))"

definition rows_of :: "string \<Rightarrow> world \<Rightarrow> row list" where
  "rows_of fid w = filter (has_file fid) (file_manifest w)"

definition status_of :: "row \<Rightarrow> status option" where
  "status_of r = (case r c_status of Some (StatusV s) \<Rightarrow> Some s | _ \<Rightarrow> None)"

definition statuses_of :: "string \<Rightarrow> world \<Rightarrow> status list" where
  "statuses_of fid w = map snd (filter (\<lambda>e. fst e = fid) (status_trace w))"

text \<open>
  \<open>UPDATE file_manifest SET ... WHERE file_id = %s\<close>: the assignments are applied, in
  the order the source appends them to \<open>updates\<close>, to every row with that id.
\<close>

definition apply_updates :: "(column \<times> sqlval) list \<Rightarrow> row \<Rightarrow> row" where
  "apply_updates us r = fold (\<lambda>(c, v) r'. r'(c \<mapsto> v)) us r"

definition sql_update :: "string \<Rightarrow> status \<Rightarrow> (column \<times> sqlval) list \<Rightarrow> world \<Rightarrow> world" where
  "sql_update fid s us w =
     w\<lparr>file_manifest := map (\<lambda>r. if has_file fid r then apply_updates us r else r) (file_manifest w),
       status_trace := status_trace w @ (if rows_of fid w = [] then [] else [(fid, s)])\<rparr>"

definition opt_set :: "column \<Rightarrow> 'a option \<Rightarrow> ('a \<Rightarrow> sqlval) \<Rightarrow> (column \<times> sqlval) list" where
  "opt_set c v mk = (case v of None \<Rightarrow> [] | Some x \<Rightarrow> [(c, mk x)])"

text \<open>A path is under a directory when it is the directory or lies below it.\<close>

definition under :: "string \<Rightarrow> string \<Rightarrow> bool" where
  "under d p = (p = d \<or> prefix (d @ ''/'') p)"

definition rmtree :: "string \<Rightarrow> (string \<rightharpoonup> node) \<Rightarrow> (string \<rightharpoonup> node)" where
  "rmtree d f = (\<lambda>p. if under d p then None else f p)"

section \<open>The API poller\<close>

subsection \<open>\<open>api-poller/database.py\<close>\<close>

text \<open>
  Each database function takes a flag that says whether its statement goes through;
  when it does not, \<open>psycopg2\<close> raises and the function's own handler (or, where it has
  none, its caller) sees the exception.
\<close>

definition db_error :: py_error where
  "db_error = PyException ''database error''"

text \<open>\<open>Database.is_file_processed\<close> (lines 47 to 58): no handler, the exception propagates.\<close>

definition is_file_processed :: "bool \<Rightarrow> string \<Rightarrow> world \<Rightarrow> py_error + bool" where
  "is_file_processed ok fid w = (if ok then Inr (rows_of fid w \<noteq> []) else Inl db_error)"

text \<open>
  \<open>Database.log_new_file\<close> (lines 60 to 91): \<open>INSERT ... ON CONFLICT (file_id) DO NOTHING
  RETURNING id\<close>.  The result is whether a row came back; an exception is rolled back,
  logged and answered with \<open>False\<close>.
\<close>

definition new_row :: "datetime \<Rightarrow> string \<Rightarrow> datetime \<Rightarrow> string \<Rightarrow> string \<Rightarrow> real \<Rightarrow> row" where
  "new_row now fid ts sat ptype size_mb =
     [c_file_id \<mapsto> Text fid, c_timestamp \<mapsto> TimeV ts, c_satellite \<mapsto> Text sat,
      c_product_type \<mapsto> Text ptype, c_status \<mapsto> StatusV QUEUED,
      c_queued_at \<mapsto> TimeV now, c_file_size_mb \<mapsto> Num size_mb]"

definition log_new_file ::
  "bool \<Rightarrow> string \<Rightarrow> datetime \<Rightarrow> string \<Rightarrow> string \<Rightarrow> real \<Rightarrow> world \<Rightarrow> world \<times> bool" where
  "log_new_file ok fid ts sat ptype size_mb w =
     (if \<not> ok then (w, False)
      else if rows_of fid w \<noteq> [] then (w, False)
      else (w\<lparr>file_manifest := file_manifest w @ [new_row (db_clock w) fid ts sat ptype size_mb],
              status_trace := status_trace w @ [(fid, QUEUED)]\<rparr>, True))"

text \<open>\<open>Database.log_api_query\<close> (lines 93 to 121): an exception is rolled back and logged.\<close>

definition log_api_query ::
  "bool \<Rightarrow> datetime \<Rightarrow> int \<Rightarrow> int \<Rightarrow> real \<Rightarrow> string \<Rightarrow> string option \<Rightarrow> world \<Rightarrow> world" where
  "log_api_query ok ts found new dur st err w =
     (if ok
      then w\<lparr>api_query_log := api_query_log w @
               [\<lparr>query_timestamp = ts, files_found = found, files_new = new,
                 query_duration_sec = dur, query_status = st, query_error = err\<rparr>]\<rparr>
      else w)"


subsection \<open>\<open>api-poller/poller.py\<close>\<close>

text \<open>The dictionary \<open>_extract_product_metadata\<close> builds for one product.\<close>

record file_meta =
  fm_file_id :: string
  fm_timestamp :: datetime
  fm_satellite :: string
  fm_product_type :: string
  fm_size_mb :: real
  fm_collection_id :: string
  fm_product_id :: string

text \<open>
  What the catalog does with one search: it raises somewhere inside the \<open>try\<close> of
  \<open>query_new_files\<close> (the search call, \<open>total_results\<close>, the iteration), or it reports
  \<open>total_results\<close> and yields products.  A product is \<open>None\<close> when its metadata
  extraction raised or returned \<open>None\<close> (lines 179 to 189: logged, skipped).
\<close>

datatype search_outcome =
    SearchRaised py_error
  | SearchOk int "file_meta option list"

text \<open>
  The surroundings of one polling cycle: the clock, the two configuration values, the
  catalog, the measured duration, and for every database statement and broker call of
  the cycle whether it goes through (those of the loops are numbered by position in the
  list the loop runs over).
\<close>

record cycle =
  cy_now :: datetime
  cy_min_age_hours :: int
  cy_lookback_minutes :: int
  cy_catalog :: "datetime \<Rightarrow> datetime \<Rightarrow> search_outcome"
  cy_query_duration :: real
  cy_logged_at :: datetime
  cy_log_ok :: bool
  cy_select_ok :: "nat \<Rightarrow> bool"
  cy_insert_ok :: "nat \<Rightarrow> bool"
  cy_send_ok :: "nat \<Rightarrow> bool"
  cy_isoformat :: "datetime \<Rightarrow> string"

text \<open>
  \<open>EUMETSATPoller.query_new_files\<close> (lines 122 to 223).  The window is computed before
  the \<open>try\<close>, so an \<open>OverflowError\<close> there leaves the function; everything after is
  caught.  The result pairs the world with the exception or the returned list.
\<close>

definition query_new_files :: "cycle \<Rightarrow> world \<Rightarrow> world \<times> (py_error + file_meta list)" where
  "query_new_files c w =
     (case search_window (cy_now c) (cy_min_age_hours c) (cy_lookback_minutes c) of
        Inl e \<Rightarrow> (w, Inl e)
      | Inr (dtstart, dtend) \<Rightarrow>
          (let w1 = w\<lparr>catalog_calls := catalog_calls w @ [(dtstart, dtend)]\<rparr> in
           case cy_catalog c dtstart dtend of
             SearchRaised e \<Rightarrow>
               (log_api_query (cy_log_ok c) (cy_logged_at c) 0 0 (cy_query_duration c)
                  ''FAILED'' (Some (str_exc e)) w1, Inr [])
           | SearchOk total_results products \<Rightarrow>
               if total_results = 0 then (w1, Inr [])
               else
                 (log_api_query (cy_log_ok c) (cy_logged_at c) total_results 0
                    (cy_query_duration c) ''SUCCESS'' None w1,
                  Inr (List.map_filter (\<lambda>m. m) products))))"

text \<open>
  \<open>EUMETSATPoller.filter_new_files\<close> (lines 382 to 404): keeps the files the manifest
  does not hold.  The \<open>SELECT\<close> has no handler, so a database error ends the loop.
\<close>

fun filter_new_files_from :: "cycle \<Rightarrow> nat \<Rightarrow> file_meta list \<Rightarrow> world \<Rightarrow> py_error + file_meta list" where
  "filter_new_files_from c i [] w = Inr []"
| "filter_new_files_from c i (m # ms) w =
     (case is_file_processed (cy_select_ok c i) (fm_file_id m) w of
        Inl e \<Rightarrow> Inl e
      | Inr processed \<Rightarrow>
          (case filter_new_files_from c (Suc i) ms w of
             Inl e \<Rightarrow> Inl e
           | Inr new_files \<Rightarrow> Inr (if \<not> processed then m # new_files else new_files)))"

definition filter_new_files :: "cycle \<Rightarrow> file_meta list \<Rightarrow> world \<Rightarrow> py_error + file_meta list" where
  "filter_new_files c file_list w = filter_new_files_from c 0 file_list w"

definition download_task_of :: "cycle \<Rightarrow> file_meta \<Rightarrow> download_task" where
  "download_task_of c m =
     \<lparr>dt_file_id = fm_file_id m, dt_timestamp = cy_isoformat c (fm_timestamp m),
      dt_satellite = fm_satellite m, dt_size_mb = fm_size_mb m,
      dt_collection_id = fm_collection_id m, dt_product_id = fm_product_id m\<rparr>"

text \<open>
  \<open>EUMETSATPoller.enqueue_downloads\<close> (lines 406 to 448): the insert first, the task
  only when the insert made the row.  A broker error is caught and logged inside the
  loop, after the insert.  The result is the world and \<open>enqueued_count\<close>.
\<close>

fun enqueue_downloads_from :: "cycle \<Rightarrow> nat \<Rightarrow> file_meta list \<Rightarrow> world \<Rightarrow> nat \<Rightarrow> world \<times> nat" where
  "enqueue_downloads_from c i [] w enqueued_count = (w, enqueued_count)"
| "enqueue_downloads_from c i (m # ms) w enqueued_count =
     (case log_new_file (cy_insert_ok c i) (fm_file_id m) (fm_timestamp m) (fm_satellite m)
             (fm_product_type m) (fm_size_mb m) w of
        (w1, success) \<Rightarrow>
          if success then
            (if cy_send_ok c i
             then enqueue_downloads_from c (Suc i) ms
                    (w1\<lparr>download_queue := download_queue w1 @ [download_task_of c m]\<rparr>)
                    (Suc enqueued_count)
             else enqueue_downloads_from c (Suc i) ms w1 enqueued_count)
          else enqueue_downloads_from c (Suc i) ms w1 enqueued_count)"

definition enqueue_downloads :: "cycle \<Rightarrow> file_meta list \<Rightarrow> world \<Rightarrow> world \<times> nat" where
  "enqueue_downloads c file_list w = enqueue_downloads_from c 0 file_list w 0"

text \<open>
  \<open>EUMETSATPoller.poll\<close> (lines 450 to 482): every exception of the three steps is
  caught and logged; what the steps had written before stays written.
\<close>

definition poll :: "cycle \<Rightarrow> world \<Rightarrow> world" where
  "poll c w =
     (case query_new_files c w of
        (w1, Inl e) \<Rightarrow> w1
      | (w1, Inr all_files) \<Rightarrow>
          if all_files = [] then w1
          else
            (case filter_new_files c all_files w1 of
               Inl e \<Rightarrow> w1
             | Inr new_files \<Rightarrow>
                 if new_files = [] then w1
                 else fst (enqueue_downloads c new_files w1)))"

text \<open>
  \<open>scheduled_poll\<close> of \<open>app.py\<close> (lines 50 to 77): \<open>poll\<close> and \<open>get_queue_length\<close> catch
  their own exceptions, so the \<open>try\<close> body always reaches the assignment of
  \<open>"SUCCESS"\<close>.  The Prometheus metrics are left out.
\<close>

definition scheduled_poll :: "cycle \<Rightarrow> world \<Rightarrow> world" where
  "scheduled_poll c w = (poll c w)\<lparr>last_poll_status := ''SUCCESS''\<rparr>"

text \<open>The scheduler runs one cycle after the other.\<close>

fun run_cycles :: "cycle list \<Rightarrow> world \<Rightarrow> world" where
  "run_cycles [] w = w"
| "run_cycles (c # cs) w = run_cycles cs (scheduled_poll c w)"


section \<open>The download worker\<close>

subsection \<open>\<open>downloader/database.py\<close>\<close>

text \<open>
  \<open>Database.update_download_status\<close> (lines 47 to 103): the statement is built from the
  arguments that are not \<open>None\<close>; it has no condition on the row's present status.  An
  exception is rolled back, logged and answered with \<open>False\<close>.
\<close>

definition update_download_status ::
  "bool \<Rightarrow> string \<Rightarrow> status \<Rightarrow> int option \<Rightarrow> string option \<Rightarrow> string option \<Rightarrow> real option \<Rightarrow>
   world \<Rightarrow> world \<times> bool" where
  "update_download_status ok fid s attempt error_message file_path download_duration w =
     (if \<not> ok then (w, False)
      else
        (sql_update fid s
           ([(c_status, StatusV s), (c_updated_at, TimeV (db_clock w))]
            @ opt_set c_download_attempt attempt IntV
            @ opt_set c_error_message error_message Text
            @ opt_set c_raw_file_path file_path Text
            @ opt_set c_download_duration_sec download_duration Num
            @ (if s = DOWNLOADING then [(c_download_started_at, TimeV (db_clock w))]
               else if s = DOWNLOADED then [(c_downloaded_at, TimeV (db_clock w))]
               else []))
           w, True))"

text \<open>\<open>log_download_metrics\<close> and \<open>log_processing_metrics\<close>: an insert whose exception is logged.\<close>

definition log_metrics :: "bool \<Rightarrow> string \<Rightarrow> string \<Rightarrow> real \<Rightarrow> string \<Rightarrow> string option \<Rightarrow> world \<Rightarrow> world" where
  "log_metrics ok fid stage dur st err w =
     (if ok
      then w\<lparr>processing_metrics := processing_metrics w @
               [\<lparr>m_file_id = fid, m_stage = stage, m_duration_seconds = dur,
                 m_status = st, m_error_message = err\<rparr>]\<rparr>
      else w)"

subsection \<open>\<open>downloader/tasks.py\<close>\<close>

text \<open>
  What the module and its configuration fix.  \<open>shutil_bound\<close> says whether the name
  \<open>shutil\<close> is bound in \<open>downloader/tasks.py\<close>: the file uses \<open>shutil.rmtree\<close> and
  \<open>shutil.copyfileobj\<close> and has no \<open>import shutil\<close>, so in the source it is not.
  \<open>raw_dir_of\<close> stands for lines 92 to 97, \<open>datetime.fromisoformat\<close> and \<open>strftime\<close>,
  which give the directory \<open>/raw/Y/m/d/Ymd_HMS_MSG_HRSEVIRI\<close> or raise \<open>ValueError\<close>.
\<close>

record downloader_cfg =
  shutil_bound :: bool
  max_retries :: nat
  retry_delay_seconds :: "int list"
  raw_dir_of :: "string \<Rightarrow> py_error + string"

text \<open>The source as it is: \<open>max_retries=3\<close> in the decorator, the default delays of line 269.\<close>

definition source_cfg :: "(string \<Rightarrow> py_error + string) \<Rightarrow> downloader_cfg" where
  "source_cfg f = \<lparr>shutil_bound = False, max_retries = 3,
                   retry_delay_seconds = [60, 300, 900], raw_dir_of = f\<rparr>"

text \<open>
  What the catalog does in one attempt, lines 105 to 205: it writes files into the
  product directory and either completes (the names are \<open>downloaded_files\<close>) or raises
  after writing some.
\<close>

datatype fetch_outcome =
    Fetched "string list"
  | FetchRaised py_error "string list"

record attempt =
  at_fetch :: fetch_outcome
  at_db_ok :: bool
  at_send_ok :: bool
  at_duration :: real

text \<open>
  How a run of a task body ends: it returns its dictionary (kept: the \<open>status\<close> entry),
  it raises the \<open>Retry\<close> that \<open>self.retry\<close> makes, or it raises something else.
\<close>

datatype task_exit =
    Returned string
  | RetryRaised py_error int
  | Raised py_error

text \<open>
  \<open>Task.retry\<close> of Celery: the task is sent again with \<open>retries + 1\<close> unless that
  exceeds \<open>max_retries\<close>, in which case the exception passed as \<open>exc\<close> is raised.
\<close>

definition task_retry :: "downloader_cfg \<Rightarrow> nat \<Rightarrow> py_error \<Rightarrow> int \<Rightarrow> task_exit" where
  "task_retry cfg retries exc countdown =
     (if max_retries cfg < retries + 1 then Raised exc else RetryRaised exc countdown)"

definition join_path :: "string \<Rightarrow> string \<Rightarrow> string" where
  "join_path d n = d @ ''/'' @ n"

definition write_files :: "string \<Rightarrow> string list \<Rightarrow> world \<Rightarrow> world" where
  "write_files d names w = w\<lparr>fs := fold (\<lambda>n f. f(join_path d n \<mapsto> File)) names (fs w)\<rparr>"

text \<open>Lines 260 and 261, again 277 and 278: \<open>if os.path.exists(output_dir): shutil.rmtree(output_dir)\<close>.\<close>

definition remove_partial :: "downloader_cfg \<Rightarrow> string \<Rightarrow> world \<Rightarrow> py_error + world" where
  "remove_partial cfg d w =
     (if fs w d \<noteq> None
      then (if shutil_bound cfg then Inr (w\<lparr>fs := rmtree d (fs w)\<rparr>)
            else Inl (NameError ''shutil''))
      else Inr w)"

text \<open>
  Lines 269 and 270: \<open>retry_delays[min(attempt - 1, len(retry_delays) - 1)]\<close>.  With
  \<open>attempt\<close> at least 1 the index is in range unless the list is empty, where it is \<open>-1\<close>
  and Python raises \<open>IndexError\<close>.
\<close>

definition retry_countdown :: "downloader_cfg \<Rightarrow> int \<Rightarrow> py_error + int" where
  "retry_countdown cfg attempt =
     (let retry_delays = retry_delay_seconds cfg
      in if retry_delays = [] then Inl (PyException ''list index out of range'')
         else Inr (retry_delays ! nat (min (attempt - 1) (int (length retry_delays) - 1))))"

text \<open>The \<open>try\<close> body of \<open>download_file\<close>, lines 104 to 255.\<close>

definition download_body ::
  "attempt \<Rightarrow> download_task \<Rightarrow> string \<Rightarrow> world \<Rightarrow> world \<times> (py_error + string)" where
  "download_body a td output_dir w =
     (case at_fetch a of
        FetchRaised e names \<Rightarrow> (write_files output_dir names w, Inl e)
      | Fetched names \<Rightarrow>
          (let w1 = write_files output_dir names w;
               downloaded_files = map (join_path output_dir) names
           in case filter (suffix ''.nat'') downloaded_files of
                [] \<Rightarrow> (w1, Inl (PyException ''No .nat file found in downloaded product''))
              | main_file # _ \<Rightarrow>
                  (let w2 = fst (update_download_status (at_db_ok a) (dt_file_id td) DOWNLOADED
                                   None None (Some output_dir) (Some (at_duration a)) w1);
                       w3 = log_metrics (at_db_ok a) (dt_file_id td) ''download''
                              (at_duration a) ''SUCCESS'' None w2
                   in if at_send_ok a
                      then (w3\<lparr>processing_queue := processing_queue w3 @
                                 [\<lparr>pt_file_id = dt_file_id td, pt_file_path = output_dir,
                                   pt_main_file = main_file, pt_timestamp = dt_timestamp td,
                                   pt_satellite = dt_satellite td\<rparr>]\<rparr>,
                            Inr ''success'')
                      else (w3, Inl (PyException ''broker error'')))))"

text \<open>The handler of \<open>SoftTimeLimitExceeded\<close>, lines 257 to 272.\<close>

definition download_timed_out ::
  "downloader_cfg \<Rightarrow> attempt \<Rightarrow> nat \<Rightarrow> download_task \<Rightarrow> string \<Rightarrow> world \<Rightarrow> world \<times> task_exit" where
  "download_timed_out cfg a retries td output_dir w =
     (case remove_partial cfg output_dir w of
        Inl e \<Rightarrow> (w, Raised e)
      | Inr w1 \<Rightarrow>
          (let w2 = fst (update_download_status (at_db_ok a) (dt_file_id td) RETRY
                           None (Some ''Download timed out'') None None w1)
           in case retry_countdown cfg (int retries + 1) of
                Inl e \<Rightarrow> (w2, Raised e)
              | Inr countdown \<Rightarrow> (w2, task_retry cfg retries SoftTimeLimitExceeded countdown)))"

text \<open>The handler of every other exception, lines 274 to 314.\<close>

definition download_failed ::
  "downloader_cfg \<Rightarrow> attempt \<Rightarrow> nat \<Rightarrow> download_task \<Rightarrow> string \<Rightarrow> py_error \<Rightarrow> world \<Rightarrow>
   world \<times> task_exit" where
  "download_failed cfg a retries td output_dir e w =
     (case remove_partial cfg output_dir w of
        Inl e' \<Rightarrow> (w, Raised e')
      | Inr w1 \<Rightarrow>
          (let w2 = log_metrics (at_db_ok a) (dt_file_id td) ''download'' (at_duration a)
                      ''FAILED'' (Some (str_exc e)) w1
           in if int retries + 1 < 3 then
                (let w3 = fst (update_download_status (at_db_ok a) (dt_file_id td) RETRY
                                 None (Some (str_exc e)) None None w2)
                 in case retry_countdown cfg (int retries + 1) of
                      Inl e' \<Rightarrow> (w3, Raised e')
                    | Inr countdown \<Rightarrow> (w3, task_retry cfg retries e countdown))
              else
                (fst (update_download_status (at_db_ok a) (dt_file_id td) FAILED
                        None (Some (''Max retries reached: '' @ str_exc e)) None None w2),
                 Returned ''failed'')))"

text \<open>
  \<open>download_file\<close> (lines 60 to 314), run with \<open>self.request.retries = retries\<close>.
  \<open>os.makedirs\<close> is taken to succeed; of the directories it makes only the last is kept.
\<close>

definition download_file ::
  "downloader_cfg \<Rightarrow> attempt \<Rightarrow> nat \<Rightarrow> download_task \<Rightarrow> world \<Rightarrow> world \<times> task_exit" where
  "download_file cfg a retries td w =
     (let w1 = fst (update_download_status (at_db_ok a) (dt_file_id td) DOWNLOADING
                      (Some (int retries + 1)) None None None w)
      in case raw_dir_of cfg (dt_timestamp td) of
           Inl e \<Rightarrow> (w1, Raised e)
         | Inr output_dir \<Rightarrow>
             (case download_body a td output_dir (w1\<lparr>fs := (fs w1)(output_dir \<mapsto> Dir)\<rparr>) of
                (w2, Inr r) \<Rightarrow> (w2, Returned r)
              | (w2, Inl SoftTimeLimitExceeded) \<Rightarrow> download_timed_out cfg a retries td output_dir w2
              | (w2, Inl e) \<Rightarrow> download_failed cfg a retries td output_dir e w2))"

text \<open>\<open>DownloadTask.on_failure\<close> (lines 43 to 58).\<close>

definition download_on_failure :: "bool \<Rightarrow> py_error \<Rightarrow> download_task \<Rightarrow> world \<Rightarrow> world" where
  "download_on_failure ok exc td w =
     fst (update_download_status ok (dt_file_id td) FAILED None (Some (str_exc exc)) None None w)"

text \<open>
  What the Celery worker does with one download task: it runs the body; on \<open>Retry\<close> it
  runs it again with one more retry; on any other exception it calls \<open>on_failure\<close>; on a
  return it is done.  Each run takes the next element of the list, which says what the
  outside did during that run; when the list is used up the task is still waiting.
  Every exception of the classes in \<open>autoretry_for\<close> that the body can raise is caught by
  the body's own handlers, so that option never applies.
\<close>

fun run_download_task ::
  "downloader_cfg \<Rightarrow> nat \<Rightarrow> attempt list \<Rightarrow> download_task \<Rightarrow> world \<Rightarrow> world" where
  "run_download_task cfg retries [] td w = w"
| "run_download_task cfg retries (a # as) td w =
     (case download_file cfg a retries td w of
        (w1, Returned r) \<Rightarrow> w1
      | (w1, RetryRaised e countdown) \<Rightarrow> run_download_task cfg (Suc retries) as td w1
      | (w1, Raised e) \<Rightarrow> download_on_failure (at_db_ok a) e td w1)"


section \<open>The processing worker\<close>

subsection \<open>\<open>processor/database.py\<close>\<close>

text \<open>The keyword arguments of \<open>Database.update_processing_status\<close>, each \<open>None\<close> by default.\<close>

record proc_args =
  pa_attempt :: "int option"
  pa_error_message :: "string option"
  pa_skip_reason :: "string option"
  pa_output_path :: "string option"
  pa_quality_score :: "real option"
  pa_missing_data_pct :: "real option"
  pa_saturation_pct :: "real option"
  pa_mean_solar_zenith :: "real option"
  pa_processing_duration :: "real option"

definition no_args :: proc_args where
  "no_args = \<lparr>pa_attempt = None, pa_error_message = None, pa_skip_reason = None,
              pa_output_path = None, pa_quality_score = None, pa_missing_data_pct = None,
              pa_saturation_pct = None, pa_mean_solar_zenith = None,
              pa_processing_duration = None\<rparr>"

text \<open>
  \<open>Database.update_processing_status\<close> (lines 47 to 128), built like the downloader's
  update and, like it, without a condition on the row's present status.
\<close>

definition update_processing_status ::
  "bool \<Rightarrow> string \<Rightarrow> status \<Rightarrow> proc_args \<Rightarrow> world \<Rightarrow> world \<times> bool" where
  "update_processing_status ok fid s args w =
     (if \<not> ok then (w, False)
      else
        (sql_update fid s
           ([(c_status, StatusV s), (c_updated_at, TimeV (db_clock w))]
            @ opt_set c_processing_attempt (pa_attempt args) IntV
            @ opt_set c_error_message (pa_error_message args) Text
            @ opt_set c_skip_reason (pa_skip_reason args) Text
            @ opt_set c_output_file_path (pa_output_path args) Text
            @ opt_set c_quality_score (pa_quality_score args) Num
            @ opt_set c_missing_data_pct (pa_missing_data_pct args) Num
            @ opt_set c_saturation_pct (pa_saturation_pct args) Num
            @ opt_set c_mean_solar_zenith (pa_mean_solar_zenith args) Num
            @ opt_set c_processing_duration_sec (pa_processing_duration args) Num
            @ (if s = PROCESSING then [(c_processing_started_at, TimeV (db_clock w))]
               else if s = COMPLETE \<or> s = SKIPPED then [(c_processed_at, TimeV (db_clock w))]
               else []))
           w, True))"

subsection \<open>\<open>processor/quality.py\<close>\<close>

text \<open>
  A loaded scene, as far as \<open>QualityAssessment.assess\<close> looks at it.  The array
  arithmetic of \<open>numpy\<close> is not modelled: the scene carries what reading and measuring
  the HRV channel gives, the percentages or the exception raised on the way (a
  \<open>KeyError\<close> when the channel is absent), and the same for the solar zenith angle,
  \<open>None\<close> when the scene has no such dataset.
\<close>

record hrv_metrics =
  hm_missing_pct :: real
  hm_saturation_pct :: real

record scene =
  sc_hrv :: "py_error + hrv_metrics"
  sc_solar_zenith :: "(py_error + real) option"

record qa_config =
  max_missing_pct :: real
  max_solar_zenith :: real
  fmt1 :: "real \<Rightarrow> string"

record quality_result =
  skip :: bool
  skip_reason :: "string option"
  quality_score :: real
  missing_data_pct :: real
  saturation_pct :: real
  mean_solar_zenith :: "real option"

definition quality_check_error :: "py_error \<Rightarrow> quality_result \<Rightarrow> quality_result" where
  "quality_check_error e result =
     result\<lparr>skip := True, skip_reason := Some (''QUALITY_CHECK_ERROR: '' @ str_exc e)\<rparr>"

definition saturation_and_score :: "hrv_metrics \<Rightarrow> quality_result \<Rightarrow> quality_result" where
  "saturation_and_score hm result =
     result\<lparr>saturation_pct := hm_saturation_pct hm,
            quality_score := max 0 (100 - hm_missing_pct hm)\<rparr>"

text \<open>
  \<open>QualityAssessment.assess\<close> (lines 20 to 99).  The dictionary \<open>result\<close> is updated in
  place, so the handler returns what had been entered before the exception.
\<close>

definition assess :: "qa_config \<Rightarrow> scene \<Rightarrow> quality_result" where
  "assess cfg sc =
     (let result = \<lparr>skip = False, skip_reason = None, quality_score = 100,
                    missing_data_pct = 0, saturation_pct = 0, mean_solar_zenith = None\<rparr>
      in case sc_hrv sc of
           Inl e \<Rightarrow> quality_check_error e result
         | Inr hm \<Rightarrow>
             (let result1 = result\<lparr>missing_data_pct := hm_missing_pct hm\<rparr>
              in if max_missing_pct cfg < hm_missing_pct hm
                 then result1\<lparr>skip := True,
                              skip_reason := Some (''EXCESSIVE_MISSING_DATA ('' @
                                               fmt1 cfg (hm_missing_pct hm) @ ''%)''),
                              quality_score := 0\<rparr>
                 else
                   (case sc_solar_zenith sc of
                      None \<Rightarrow> saturation_and_score hm result1
                    | Some (Inl e) \<Rightarrow> quality_check_error e result1
                    | Some (Inr mean_sza) \<Rightarrow>
                        (let result2 = result1\<lparr>mean_solar_zenith := Some mean_sza\<rparr>
                         in if max_solar_zenith cfg < mean_sza
                            then result2\<lparr>skip := True,
                                         skip_reason := Some (''NIGHTTIME_IMAGE (SZA='' @
                                                          fmt1 cfg mean_sza @ '')''),
                                         quality_score := 0\<rparr>
                            else saturation_and_score hm result2))))"

subsection \<open>\<open>processor/tasks.py\<close>\<close>

text \<open>
  What the outside does during one run of \<open>process_file\<close>: whether the database
  statements go through, what \<open>load_nat_file\<close> returns (it catches every exception and
  returns \<open>None\<close>), whether calibration, reprojection, subsetting and the NetCDF write
  raise, what \<open>generate_output_path\<close> gives (directory and file name, or the \<open>ValueError\<close>
  of \<open>fromisoformat\<close>), whether deleting goes through, and the measured durations by
  stage name.
\<close>

record processing =
  pr_db_ok :: bool
  pr_load :: "scene option"
  pr_calibrate :: "py_error option"
  pr_reproject :: "py_error option"
  pr_subset :: "py_error option"
  pr_output_path :: "py_error + (string \<times> string)"
  pr_write :: "py_error option"
  pr_rm_ok :: bool
  pr_elapsed :: "string \<Rightarrow> real"

text \<open>
  \<open>cleanup_file\<close> (lines 286 to 296): a directory is removed with its content, a file
  alone; an exception while deleting is logged and nothing is removed.
\<close>

definition cleanup_file :: "bool \<Rightarrow> string \<Rightarrow> world \<Rightarrow> world" where
  "cleanup_file ok filepath w =
     (case fs w filepath of
        Some Dir \<Rightarrow> if ok then w\<lparr>fs := rmtree filepath (fs w)\<rparr> else w
      | Some File \<Rightarrow> if ok then w\<lparr>fs := (fs w)(filepath := None)\<rparr> else w
      | None \<Rightarrow> w)"

text \<open>Steps 3 to 7 of the \<open>try\<close> body, lines 142 to 227.\<close>

definition process_steps ::
  "processing \<Rightarrow> process_task \<Rightarrow> quality_result \<Rightarrow> world \<Rightarrow> world \<times> (py_error + string)" where
  "process_steps p t q w =
     (let fid = pt_file_id t in
      case pr_calibrate p of
        Some e \<Rightarrow> (w, Inl e)
      | None \<Rightarrow>
      (let w1 = log_metrics (pr_db_ok p) fid ''calibration'' (pr_elapsed p ''calibration'') ''SUCCESS'' None w in
       case pr_reproject p of
         Some e \<Rightarrow> (w1, Inl e)
       | None \<Rightarrow>
       (let w2 = log_metrics (pr_db_ok p) fid ''reprojection'' (pr_elapsed p ''reprojection'') ''SUCCESS'' None w1 in
        case pr_subset p of
          Some e \<Rightarrow> (w2, Inl e)
        | None \<Rightarrow>
        (let w3 = log_metrics (pr_db_ok p) fid ''subsetting'' (pr_elapsed p ''subsetting'') ''SUCCESS'' None w2 in
         case pr_output_path p of
           Inl e \<Rightarrow> (w3, Inl e)
         | Inr (output_dir, filename) \<Rightarrow>
         (let w4 = w3\<lparr>fs := (fs w3)(output_dir \<mapsto> Dir)\<rparr>;
              output_path = join_path output_dir filename in
          case pr_write p of
            Some e \<Rightarrow> (w4, Inl e)
          | None \<Rightarrow>
          (let w5 = w4\<lparr>fs := (fs w4)(output_path \<mapsto> File)\<rparr>;
               w6 = log_metrics (pr_db_ok p) fid ''write_netcdf'' (pr_elapsed p ''write_netcdf'') ''SUCCESS'' None w5;
               w7 = fst (update_processing_status (pr_db_ok p) fid COMPLETE
                           (no_args\<lparr>pa_output_path := Some output_path,
                                    pa_quality_score := Some (quality_score q),
                                    pa_missing_data_pct := Some (missing_data_pct q),
                                    pa_saturation_pct := Some (saturation_pct q),
                                    pa_mean_solar_zenith := mean_solar_zenith q,
                                    pa_processing_duration := Some (pr_elapsed p ''total'')\<rparr>) w6)
           in (cleanup_file (pr_rm_ok p) (pt_file_path t) w7, Inr ''success'')))))))"

text \<open>The \<open>try\<close> body of \<open>process_file\<close>, lines 86 to 227.\<close>

definition process_body ::
  "qa_config \<Rightarrow> processing \<Rightarrow> process_task \<Rightarrow> world \<Rightarrow> world \<times> (py_error + string)" where
  "process_body qa p t w =
     (let fid = pt_file_id t in
      case pr_load p of
        None \<Rightarrow> (w, Inl (PyException ''Failed to load .nat file''))
      | Some sc \<Rightarrow>
          (let w1 = log_metrics (pr_db_ok p) fid ''load_nat'' (pr_elapsed p ''load_nat'') ''SUCCESS'' None w;
               q = assess qa sc;
               w2 = log_metrics (pr_db_ok p) fid ''quality_check'' (pr_elapsed p ''quality_check'') ''SUCCESS'' None w1
           in if skip q then
                (let w3 = fst (update_processing_status (pr_db_ok p) fid SKIPPED
                                 (no_args\<lparr>pa_skip_reason := skip_reason q,
                                          pa_quality_score := Some (quality_score q),
                                          pa_missing_data_pct := Some (missing_data_pct q),
                                          pa_mean_solar_zenith := mean_solar_zenith q,
                                          pa_processing_duration := Some (pr_elapsed p ''total'')\<rparr>) w2)
                 in (cleanup_file (pr_rm_ok p) (pt_file_path t) w3, Inr ''skipped''))
              else process_steps p t q w2))"

text \<open>
  \<open>process_file\<close> (lines 51 to 271).  The body's exceptions end in one of the two
  handlers; neither calls \<open>self.retry\<close>, and everything the handlers call catches its
  own exceptions, so every run returns.
\<close>

definition process_file ::
  "qa_config \<Rightarrow> processing \<Rightarrow> process_task \<Rightarrow> world \<Rightarrow> world \<times> task_exit" where
  "process_file qa p t w =
     (let fid = pt_file_id t;
          w1 = fst (update_processing_status (pr_db_ok p) fid PROCESSING
                      (no_args\<lparr>pa_attempt := Some 1\<rparr>) w)
      in case process_body qa p t w1 of
           (w2, Inr r) \<Rightarrow> (w2, Returned r)
         | (w2, Inl SoftTimeLimitExceeded) \<Rightarrow>
             (let w3 = fst (update_processing_status (pr_db_ok p) fid PROCESSING_FAILED
                              (no_args\<lparr>pa_error_message := Some ''Processing timeout''\<rparr>) w2)
              in (cleanup_file (pr_rm_ok p) (pt_file_path t) w3, Returned ''timeout''))
         | (w2, Inl e) \<Rightarrow>
             (let w3 = log_metrics (pr_db_ok p) fid ''processing'' (pr_elapsed p ''total'')
                         ''FAILED'' (Some (str_exc e)) w2;
                  w4 = fst (update_processing_status (pr_db_ok p) fid PROCESSING_FAILED
                              (no_args\<lparr>pa_error_message := Some (str_exc e),
                                       pa_processing_duration := Some (pr_elapsed p ''total'')\<rparr>) w3)
              in (cleanup_file (pr_rm_ok p) (pt_file_path t) w4, Returned ''error'')))"

text \<open>\<open>ProcessingTask.on_failure\<close> (lines 33 to 48).\<close>

definition processing_on_failure :: "bool \<Rightarrow> py_error \<Rightarrow> process_task \<Rightarrow> world \<Rightarrow> world" where
  "processing_on_failure ok exc t w =
     fst (update_processing_status ok (pt_file_id t) PROCESSING_FAILED
            (no_args\<lparr>pa_error_message := Some (str_exc exc)\<rparr>) w)"

text \<open>
  What the Celery worker does with one processing task.  The task is declared without
  \<open>max_retries\<close> handling of its own and its body never raises \<open>Retry\<close>; should it, the
  worker would run it again, which the list of runs makes visible.
\<close>

fun run_process_task :: "qa_config \<Rightarrow> processing list \<Rightarrow> process_task \<Rightarrow> world \<Rightarrow> world" where
  "run_process_task qa [] t w = w"
| "run_process_task qa (p # ps) t w =
     (case process_file qa p t w of
        (w1, Returned r) \<Rightarrow> w1
      | (w1, RetryRaised e countdown) \<Rightarrow> run_process_task qa ps t w1
      | (w1, Raised e) \<Rightarrow> processing_on_failure (pr_db_ok p) e t w1)"

section \<open>Notions the properties are stated with\<close>

text \<open>The download tasks sent for one file, and the files one cycle's query returns.\<close>

definition tasks_of :: "string \<Rightarrow> world \<Rightarrow> download_task list" where
  "tasks_of fid w = filter (\<lambda>t. dt_file_id t = fid) (download_queue w)"

definition files_returned :: "cycle \<Rightarrow> world \<Rightarrow> file_meta list" where
  "files_returned c w = (case snd (query_new_files c w) of Inl e \<Rightarrow> [] | Inr ms \<Rightarrow> ms)"

text \<open>
  How the manifest and the download queue may differ, for one file id, after some
  discovery cycles: a file that had a row keeps exactly its rows and its tasks; a file
  that had none has at most one row, a \<open>QUEUED\<close> one, and no more new tasks than rows.
\<close>

definition grows :: "string \<Rightarrow> world \<Rightarrow> world \<Rightarrow> bool" where
  "grows fid w0 w =
     ((rows_of fid w0 \<noteq> [] \<longrightarrow> rows_of fid w = rows_of fid w0 \<and> tasks_of fid w = tasks_of fid w0)
      \<and> (rows_of fid w0 = [] \<longrightarrow>
            length (rows_of fid w) \<le> 1
          \<and> length (tasks_of fid w) \<le> length (tasks_of fid w0) + length (rows_of fid w)
          \<and> (\<forall>r \<in> set (rows_of fid w). status_of r = Some QUEUED)))"

section \<open>Concrete inputs\<close>

text \<open>
  A world with nothing in it, and the descriptor \<open>X1\<close> of the specification's
  scenario, sensed at 08:45 UTC on 1 January 2024.
\<close>

definition empty_world :: world where
  "empty_world =
     \<lparr>file_manifest = [], api_query_log = [], processing_metrics = [],
      download_queue = [], processing_queue = [], fs = Map.empty, db_clock = 0,
      status_trace = [], catalog_calls = [], last_poll_status = ''NOT_STARTED''\<rparr>"

definition meta_X :: "string \<Rightarrow> file_meta" where
  "meta_X fid =
     \<lparr>fm_file_id = fid, fm_timestamp = 63839695500000000, fm_satellite = ''MSG'',
      fm_product_type = ''HRSEVIRI'', fm_size_mb = 0, fm_collection_id = ''EO:EUM:DAT:MSG:HRSEVIRI'',
      fm_product_id = fid\<rparr>"

text \<open>
  A cycle at 10:00 UTC on that day with the default configuration, in which every
  statement and every broker call goes through and the catalog does what is given.
\<close>

definition cycle_with :: "search_outcome \<Rightarrow> cycle" where
  "cycle_with outcome =
     \<lparr>cy_now = 63839700000000000, cy_min_age_hours = 1, cy_lookback_minutes = 30,
      cy_catalog = (\<lambda>dtstart dtend. outcome), cy_query_duration = 2,
      cy_logged_at = 63839700002000000, cy_log_ok = True, cy_select_ok = (\<lambda>i. True),
      cy_insert_ok = (\<lambda>i. True), cy_send_ok = (\<lambda>i. True),
      cy_isoformat = (\<lambda>t. ''2024-01-01T08:45:00'')\<rparr>"

text \<open>The assignments \<open>update_processing_status\<close> builds, as a list of their own.\<close>

definition proc_updates :: "status \<Rightarrow> proc_args \<Rightarrow> world \<Rightarrow> (column \<times> sqlval) list" where
  "proc_updates s args w = 
           ([(c_status, StatusV s), (c_updated_at, TimeV (db_clock w))]
            @ opt_set c_processing_attempt (pa_attempt args) IntV
            @ opt_set c_error_message (pa_error_message args) Text
            @ opt_set c_skip_reason (pa_skip_reason args) Text
            @ opt_set c_output_file_path (pa_output_path args) Text
            @ opt_set c_quality_score (pa_quality_score args) Num
            @ opt_set c_missing_data_pct (pa_missing_data_pct args) Num
            @ opt_set c_saturation_pct (pa_saturation_pct args) Num
            @ opt_set c_mean_solar_zenith (pa_mean_solar_zenith args) Num
            @ opt_set c_processing_duration_sec (pa_processing_duration args) Num
            @ (if s = PROCESSING then [(c_processing_started_at, TimeV (db_clock w))]
               else if s = COMPLETE \<or> s = SKIPPED then [(c_processed_at, TimeV (db_clock w))]
               else []))"

text \<open>
  The arguments of the \<open>SKIPPED\<close> update (lines 123 to 131 of \<open>processor/tasks.py\<close>) and
  the world after the first update of \<open>process_file\<close> (lines 77 to 81), named for the
  statements below.
\<close>

definition skipped_args :: "processing \<Rightarrow> quality_result \<Rightarrow> proc_args" where
  "skipped_args p q =
     no_args\<lparr>pa_skip_reason := skip_reason q,
             pa_quality_score := Some (quality_score q),
             pa_missing_data_pct := Some (missing_data_pct q),
             pa_mean_solar_zenith := mean_solar_zenith q,
             pa_processing_duration := Some (pr_elapsed p ''total'')\<rparr>"

definition started :: "processing \<Rightarrow> process_task \<Rightarrow> world \<Rightarrow> world" where
  "started p t w = fst (update_processing_status (pr_db_ok p) (pt_file_id t) PROCESSING
                      (no_args\<lparr>pa_attempt := Some 1\<rparr>) w)"


text \<open>
  The record \<open>X1\<close> after a successful download: its row, the statuses written so far,
  the product directory with one file in it, and the processing task that was sent.
\<close>

definition raw_dir_X1 :: string where
  "raw_dir_X1 = ''/raw/2024/01/01/20240101_084500_MSG_HRSEVIRI''"

definition world_downloaded :: world where
  "world_downloaded =
     empty_world
       \<lparr>file_manifest :=
          [(new_row 0 ''X1'' 63839695500000000 ''MSG'' ''HRSEVIRI'' 0)
             (c_status \<mapsto> StatusV DOWNLOADED, c_download_attempt \<mapsto> IntV 1,
              c_raw_file_path \<mapsto> Text raw_dir_X1)],
        fs := [raw_dir_X1 \<mapsto> Dir, raw_dir_X1 @ ''/product_data.nat'' \<mapsto> File],
        status_trace := [(''X1'', QUEUED), (''X1'', DOWNLOADING), (''X1'', DOWNLOADED)]\<rparr>"

definition task_X1 :: process_task where
  "task_X1 =
     \<lparr>pt_file_id = ''X1'', pt_file_path = raw_dir_X1,
      pt_main_file = raw_dir_X1 @ ''/product_data.nat'',
      pt_timestamp = ''2024-01-01T08:45:00'', pt_satellite = ''MSG''\<rparr>"

text \<open>The default thresholds of \<open>quality.py\<close>; the number format is immaterial here.\<close>

definition qa_default :: qa_config where
  "qa_default = \<lparr>max_missing_pct = 50, max_solar_zenith = 85, fmt1 = (\<lambda>x. ''100.0'')\<rparr>"

text \<open>
  Three scenes: one at night (mean solar zenith angle 100 degrees), one in daylight,
  one whose HRV channel is absent, so that \<open>scene['HRV']\<close> raises \<open>KeyError\<close>.
\<close>

definition night_scene :: scene where
  "night_scene =
     \<lparr>sc_hrv = Inr \<lparr>hm_missing_pct = 0, hm_saturation_pct = 0\<rparr>,
      sc_solar_zenith = Some (Inr 100)\<rparr>"


definition no_hrv_scene :: scene where
  "no_hrv_scene = \<lparr>sc_hrv = Inl (PyException ''HRV''), sc_solar_zenith = None\<rparr>"

text \<open>
  A processing run in which every statement and the deletion go through, the scene is
  the one given and the steps after the quality check end as given.
\<close>

definition processing_with :: "scene option \<Rightarrow> py_error option \<Rightarrow> py_error option \<Rightarrow> processing" where
  "processing_with sc calibrate_exc reproject_exc =
     \<lparr>pr_db_ok = True, pr_load = sc, pr_calibrate = calibrate_exc,
      pr_reproject = reproject_exc, pr_subset = None,
      pr_output_path = Inr (''/processed/2024/01/01'', ''20240101_084500_HRV_Paris.nc''),
      pr_write = None, pr_rm_ok = True, pr_elapsed = (\<lambda>stage. 1)\<rparr>"





text \<open>The number of times the body of the download task has started for a file.\<close>

definition attempts_of :: "string \<Rightarrow> world \<Rightarrow> nat" where
  "attempts_of fid w = length (filter (\<lambda>s. s = DOWNLOADING) (statuses_of fid w))"


text \<open>
  The record \<open>X1\<close> as discovery leaves it, the download task sent for it, the source's
  configuration with the product directory of that task, and two attempts: one whose
  fetch raises after writing part of a file, one that completes.
\<close>

definition world_queued :: world where
  "world_queued =
     empty_world
       \<lparr>file_manifest := [new_row 0 ''X1'' 63839695500000000 ''MSG'' ''HRSEVIRI'' 0],
        download_queue := [download_task_of (cycle_with (SearchOk 1 [Some (meta_X ''X1'')]))
                             (meta_X ''X1'')],
        status_trace := [(''X1'', QUEUED)]\<rparr>"

definition download_X1 :: download_task where
  "download_X1 = download_task_of (cycle_with (SearchOk 1 [Some (meta_X ''X1'')])) (meta_X ''X1'')"

definition cfg_X1 :: downloader_cfg where
  "cfg_X1 = source_cfg (\<lambda>ts. Inr raw_dir_X1)"

definition failing_attempt :: attempt where
  "failing_attempt =
     \<lparr>at_fetch = FetchRaised (PyException ''Connection reset by peer'') [''product_data.nat''],
      at_db_ok = True, at_send_ok = True, at_duration = 5\<rparr>"

definition good_attempt :: attempt where
  "good_attempt =
     \<lparr>at_fetch = Fetched [''product_data.nat''],
      at_db_ok = True, at_send_ok = True, at_duration = 5\<rparr>"



text \<open>
  A step from \<open>w\<close> to \<open>w'\<close> that writes the statuses \<open>xs\<close> to the record, keeps the
  record and sends no processing task.
\<close>

definition adds :: "string \<Rightarrow> world \<Rightarrow> world \<Rightarrow> status list \<Rightarrow> bool" where
  "adds fid w w' xs =
     (statuses_of fid w' = statuses_of fid w @ xs
      \<and> (rows_of fid w' \<noteq> []) = (rows_of fid w \<noteq> [])
      \<and> processing_queue w' = processing_queue w)"


section \<open>Properties\<close>

subsection \<open>The search window\<close>

lemma timedelta_ok_one_hour: "timedelta_ok (1 * us_per_hour)"
  by (simp add: timedelta_ok_def us_per_hour_def us_per_minute_def us_per_day_def)

lemma timedelta_ok_thirty_minutes: "timedelta_ok (30 * us_per_minute)"
  by (simp add: timedelta_ok_def us_per_minute_def us_per_hour_def us_per_day_def)

text \<open>
  C4.  When \<open>query_new_files\<close> computes a window, its end is the current time minus
  \<open>min_age_hours\<close> and its start is \<open>lookback_minutes\<close> before that end; it does compute
  one whenever the two offsets and the two bounds are in the range of Python's
  \<open>timedelta\<close> and \<open>datetime\<close>; and for \<open>min_age_hours = 1\<close>, \<open>lookback_minutes = 30\<close> and a
  current time \<open>T\<close> the window is exactly \<open>[T - 90 min, T - 60 min]\<close>.
\<close>

theorem search_window_correct:
  "(search_window now h m = Inr (dtstart, dtend) \<longrightarrow>
      dtend = now - h * us_per_hour \<and> dtstart = now - h * us_per_hour - m * us_per_minute)
   \<and> (timedelta_ok (h * us_per_hour) \<and> timedelta_ok (m * us_per_minute)
        \<and> 0 \<le> now - h * us_per_hour \<and> now - h * us_per_hour \<le> datetime_max
        \<and> 0 \<le> now - h * us_per_hour - m * us_per_minute
        \<and> now - h * us_per_hour - m * us_per_minute \<le> datetime_max \<longrightarrow>
      search_window now h m =
        Inr (now - h * us_per_hour - m * us_per_minute, now - h * us_per_hour))
   \<and> (90 * us_per_minute \<le> T \<and> T \<le> datetime_max + 60 * us_per_minute \<longrightarrow>
      search_window T 1 30 = Inr (T - 90 * us_per_minute, T - 60 * us_per_minute))"
proof (intro conjI impI)
  assume "search_window now h m = Inr (dtstart, dtend)"
  then show "dtend = now - h * us_per_hour"
    and "dtstart = now - h * us_per_hour - m * us_per_minute"
    by (auto simp add: search_window_def timedelta_hours_def timedelta_minutes_def
          datetime_sub_def split: if_splits)
next
  assume "timedelta_ok (h * us_per_hour) \<and> timedelta_ok (m * us_per_minute)
        \<and> 0 \<le> now - h * us_per_hour \<and> now - h * us_per_hour \<le> datetime_max
        \<and> 0 \<le> now - h * us_per_hour - m * us_per_minute
        \<and> now - h * us_per_hour - m * us_per_minute \<le> datetime_max"
  then show "search_window now h m =
        Inr (now - h * us_per_hour - m * us_per_minute, now - h * us_per_hour)"
    by (simp add: search_window_def timedelta_hours_def timedelta_minutes_def datetime_sub_def)
next
  assume "90 * us_per_minute \<le> T \<and> T \<le> datetime_max + 60 * us_per_minute"
  then have "0 \<le> T - us_per_hour" "T - us_per_hour \<le> datetime_max"
    "0 \<le> T - us_per_hour - 30 * us_per_minute"
    "T - us_per_hour - 30 * us_per_minute \<le> datetime_max"
    "T - us_per_hour - 30 * us_per_minute = T - 90 * us_per_minute"
    "T - us_per_hour = T - 60 * us_per_minute"
    by (simp_all add: us_per_hour_def us_per_minute_def)
  then show "search_window T 1 30 = Inr (T - 90 * us_per_minute, T - 60 * us_per_minute)"
    using timedelta_ok_one_hour timedelta_ok_thirty_minutes
    by (simp add: search_window_def timedelta_hours_def timedelta_minutes_def datetime_sub_def)
qed

text \<open>
  At 10:00 UTC on 1 January 2024 (microsecond 63839700000000000 of the calendar) the
  window runs from 08:30 to 09:00.
\<close>

theorem search_window_correct_witness:
  "search_window 63839700000000000 1 30 = Inr (63839694600000000, 63839696400000000)
   \<and> 63839696400000000 = 63839700000000000 - 1 * us_per_hour
   \<and> 63839694600000000 = 63839700000000000 - 1 * us_per_hour - 30 * us_per_minute
   \<and> timedelta_ok (1 * us_per_hour) \<and> timedelta_ok (30 * us_per_minute)
   \<and> 0 \<le> 63839700000000000 - 1 * us_per_hour - 30 * us_per_minute
   \<and> 63839700000000000 - 1 * us_per_hour \<le> datetime_max
   \<and> 90 * us_per_minute \<le> 63839700000000000
   \<and> 63839700000000000 \<le> datetime_max + 60 * us_per_minute"
  using search_window_correct [of 63839700000000000 1 30 63839694600000000 63839696400000000
      63839700000000000]
  by (simp add: timedelta_ok_def us_per_hour_def us_per_minute_def us_per_day_def
        datetime_max_def)

subsection \<open>Discovery: insert if absent, enqueue on insert\<close>

lemma grows_refl: "grows fid w w"
  by (simp add: grows_def)

lemma grows_trans: "grows fid w0 w1 \<Longrightarrow> grows fid w1 w2 \<Longrightarrow> grows fid w0 w2"
  unfolding grows_def by (cases "rows_of fid w0 = []"; cases "rows_of fid w1 = []") auto

lemma has_file_new_row: "has_file fid (new_row now fid' ts sat pt sz) = (fid = fid')"
  by (auto simp add: has_file_def new_row_def)

lemma status_of_new_row: "status_of (new_row now fid' ts sat pt sz) = Some QUEUED"
  by (simp add: status_of_def new_row_def)

lemma log_new_file_grows:
  "grows fid w (fst (log_new_file ok fid' ts sat pt sz w))"
  by (auto simp add: grows_def log_new_file_def rows_of_def tasks_of_def has_file_new_row status_of_new_row filter_empty_conv)

lemma log_new_file_queue: "download_queue (fst (log_new_file ok fid' ts sat pt sz w)) = download_queue w"
  by (simp add: log_new_file_def)

lemma log_new_file_success:
  "snd (log_new_file ok fid' ts sat pt sz w) \<Longrightarrow>
     rows_of fid' w = [] \<and> length (rows_of fid' (fst (log_new_file ok fid' ts sat pt sz w))) = 1"
  by (auto simp add: log_new_file_def rows_of_def has_file_new_row split: if_splits)

lemma send_grows:
  assumes "snd (log_new_file ok fid' ts sat pt sz w)" "dt_file_id t = fid'"
  shows "grows fid w ((fst (log_new_file ok fid' ts sat pt sz w))\<lparr>download_queue := download_queue (fst (log_new_file ok fid' ts sat pt sz w)) @ [t]\<rparr>)"
  using assms
  by (auto simp add: grows_def log_new_file_def rows_of_def tasks_of_def has_file_new_row status_of_new_row filter_empty_conv split: if_splits)

lemma enqueue_grows:
  "grows fid w (fst (enqueue_downloads_from c i ms w n))"
proof (induction ms arbitrary: i w n)
  case Nil
  then show ?case by (simp add: grows_refl)
next
  case (Cons m ms)
  obtain w1 s where l: "log_new_file (cy_insert_ok c i) (fm_file_id m) (fm_timestamp m) (fm_satellite m)
             (fm_product_type m) (fm_size_mb m) w = (w1, s)" by (cases "log_new_file (cy_insert_ok c i) (fm_file_id m) (fm_timestamp m) (fm_satellite m)
             (fm_product_type m) (fm_size_mb m) w") auto
  have g1: "grows fid w w1" using log_new_file_grows[of fid w "cy_insert_ok c i" "fm_file_id m"] l by (metis fst_conv)
  show ?case
  proof (cases "s \<and> cy_send_ok c i")
    case True
    have "grows fid w (w1\<lparr>download_queue := download_queue w1 @ [download_task_of c m]\<rparr>)"
      using send_grows[of "cy_insert_ok c i" "fm_file_id m" "fm_timestamp m" "fm_satellite m" "fm_product_type m" "fm_size_mb m" w "download_task_of c m" fid] l True
      by (simp add: download_task_of_def)
    then show ?thesis using True l Cons.IH grows_trans by simp
  next
    case False
    then show ?thesis using l g1 Cons.IH grows_trans by (auto)
  qed
qed

lemma enqueue_downloads_grows: "grows fid w (fst (enqueue_downloads c ms w))"
  by (simp add: enqueue_downloads_def enqueue_grows)

lemma log_api_query_rows [simp]: "rows_of fid (log_api_query ok ts f n d st e w) = rows_of fid w"
  and log_api_query_tasks [simp]: "tasks_of fid (log_api_query ok ts f n d st e w) = tasks_of fid w"
  by (simp_all add: log_api_query_def rows_of_def tasks_of_def)

lemma query_rows: "rows_of fid (fst (query_new_files c w)) = rows_of fid w"
  and query_tasks: "tasks_of fid (fst (query_new_files c w)) = tasks_of fid w"
  by (auto simp add: query_new_files_def Let_def rows_of_def tasks_of_def log_api_query_def
      split: sum.splits search_outcome.splits prod.splits)

lemma grows_cong: "rows_of fid w1 = rows_of fid w \<Longrightarrow> tasks_of fid w1 = tasks_of fid w \<Longrightarrow> grows fid w w1"
  by (simp add: grows_def)

lemma grows_cong_left:
  "rows_of fid w1 = rows_of fid w \<Longrightarrow> tasks_of fid w1 = tasks_of fid w \<Longrightarrow> grows fid w1 w2 \<Longrightarrow> grows fid w w2"
  by (simp add: grows_def)

lemma poll_grows: "grows fid w (poll c w)"
proof -
  obtain w1 r where q: "query_new_files c w = (w1, r)" by (cases "query_new_files c w") auto
  have e: "rows_of fid w1 = rows_of fid w" "tasks_of fid w1 = tasks_of fid w"
    using query_rows[of fid c w] query_tasks[of fid c w] q by simp_all
  have g: "grows fid w w1" using e by (rule grows_cong)
  have "grows fid w (fst (enqueue_downloads c ms w1))" for ms
    using e enqueue_downloads_grows[of fid w1 c ms] by (rule grows_cong_left)
  then show ?thesis using q g
    by (auto simp add: poll_def split: sum.splits)
qed

lemma scheduled_poll_grows: "grows fid w (scheduled_poll c w)"
  using poll_grows[of fid w c] by (simp add: scheduled_poll_def grows_def rows_of_def tasks_of_def)

lemma run_cycles_grows: "grows fid w (run_cycles cs w)"
proof (induction cs arbitrary: w)
  case Nil show ?case by (simp add: grows_refl)
next
  case (Cons c cs)
  show ?case using scheduled_poll_grows[of fid w c] Cons.IH[of "scheduled_poll c w"] grows_trans by auto
qed


lemma grows_keeps: "grows fid w0 w \<Longrightarrow> rows_of fid w0 \<noteq> [] \<Longrightarrow> rows_of fid w \<noteq> []"
  by (simp add: grows_def)

lemma filter_new_files_from_ok:
  "\<forall>i. cy_select_ok c i \<Longrightarrow>
     filter_new_files_from c i ms w = Inr (filter (\<lambda>m. rows_of (fm_file_id m) w = []) ms)"
  by (induction ms arbitrary: i) (simp_all add: is_file_processed_def)

lemma log_new_file_present:
  "rows_of fid' (fst (log_new_file True fid' ts sat pt sz w)) \<noteq> []"
  by (auto simp add: log_new_file_def rows_of_def has_file_new_row)

lemma enqueue_present:
  "\<forall>i. cy_insert_ok c i \<Longrightarrow> m \<in> set ms \<Longrightarrow>
     rows_of (fm_file_id m) (fst (enqueue_downloads_from c i ms w n)) \<noteq> []"
proof (induction ms arbitrary: i w n)
  case Nil
  then show ?case by simp
next
  case (Cons a ms)
  let ?l = "log_new_file True (fm_file_id a) (fm_timestamp a) (fm_satellite a)
             (fm_product_type a) (fm_size_mb a) w"
  obtain w1 s where l: "?l = (w1, s)" by (cases ?l) auto
  have ok: "cy_insert_ok c i" using Cons.prems(1) by simp
  show ?case
  proof (cases "m = a")
    case True
    have p: "rows_of (fm_file_id m) w1 \<noteq> []"
      using log_new_file_present[of "fm_file_id a" "fm_timestamp a" "fm_satellite a"
          "fm_product_type a" "fm_size_mb a" w] l True by simp
    have q: "rows_of (fm_file_id m) (w1\<lparr>download_queue := q\<rparr>) \<noteq> []" for q
      using p by (simp add: rows_of_def)
    show ?thesis
      using l ok p q grows_keeps[OF enqueue_grows]
      by (auto simp del: enqueue_downloads_from.simps(2) simp add: enqueue_downloads_from.simps(2)[of c i a ms w n])
  next
    case False
    then have "m \<in> set ms" using Cons.prems(2) by simp
    then show ?thesis
      using l ok Cons.IH[OF Cons.prems(1)]
      by (auto)
  qed
qed

lemma files_returned_indep: "files_returned c w = files_returned c w'"
  by (auto simp add: files_returned_def query_new_files_def Let_def
      split: sum.splits search_outcome.splits prod.splits)

lemma query_result_cases:
  "snd (query_new_files c w) = Inr (files_returned c w) \<or> files_returned c w = []"
  by (auto simp add: files_returned_def split: sum.splits)

lemma poll_present:
  assumes "fid \<in> set (map fm_file_id (files_returned c w))"
    and sel: "\<forall>i. cy_select_ok c i" and ins: "\<forall>i. cy_insert_ok c i"
  shows "rows_of fid (poll c w) \<noteq> []"
proof -
  obtain w1 r where q: "query_new_files c w = (w1, r)" by (cases "query_new_files c w") auto
  obtain m where m: "m \<in> set (files_returned c w)" "fm_file_id m = fid" using assms(1) by auto
  then have ne: "files_returned c w \<noteq> []" by auto
  then have r: "r = Inr (files_returned c w)" using query_result_cases[of c w] q by simp
  have e: "rows_of fid w1 = rows_of fid w" using query_rows[of fid c w] q by simp
  let ?new = "filter (\<lambda>m. rows_of (fm_file_id m) w1 = []) (files_returned c w)"
  have f: "filter_new_files c (files_returned c w) w1 = Inr ?new"
    by (simp add: filter_new_files_def filter_new_files_from_ok[OF sel])
  show ?thesis
  proof (cases "rows_of fid w1 = []")
    case False
    then show ?thesis
      using q r f ne grows_keeps[OF enqueue_downloads_grows, of fid w1]
      by (auto simp add: poll_def)
  next
    case True
    then have mn: "m \<in> set ?new" using m e by simp
    then have "?new \<noteq> []" by (metis empty_iff list.set(1))
    moreover have "rows_of (fm_file_id m) (fst (enqueue_downloads c ?new w1)) \<noteq> []"
      unfolding enqueue_downloads_def using enqueue_present[OF ins mn] by simp
    ultimately show ?thesis using q r f ne m(2) by (simp add: poll_def)
  qed
qed

lemma scheduled_poll_rows: "rows_of fid (scheduled_poll c w) = rows_of fid (poll c w)"
  by (simp add: scheduled_poll_def rows_of_def)

lemma run_cycles_present:
  assumes "c \<in> set cs" "fid \<in> set (map fm_file_id (files_returned c w))"
    and sel: "\<forall>i. cy_select_ok c i" and ins: "\<forall>i. cy_insert_ok c i"
  shows "rows_of fid (run_cycles cs w) \<noteq> []"
  using assms(1,2)
proof (induction cs arbitrary: w)
  case Nil
  then show ?case by simp
next
  case (Cons a cs)
  show ?case
  proof (cases "a = c")
    case True
    have "rows_of fid (scheduled_poll c w) \<noteq> []"
      using poll_present[OF Cons.prems(2) sel ins] by (simp add: scheduled_poll_rows)
    then show ?thesis using True grows_keeps[OF run_cycles_grows] by simp
  next
    case False
    then have "c \<in> set cs" using Cons.prems(1) by simp
    moreover have "fid \<in> set (map fm_file_id (files_returned c (scheduled_poll a w)))"
      using Cons.prems(2) files_returned_indep[of c w "scheduled_poll a w"] by simp
    ultimately show ?thesis using Cons.IH by simp
  qed
qed

text \<open>
  C1.  Start from a manifest with at most one row for the file id and no more download
  tasks for it than rows.  After any sequence of discovery cycles, whatever the catalog
  returns and whichever statements or broker calls fail, the manifest still has at most
  one row for it and the queue no more tasks for it than rows, so at most one; if it had
  a row before, its rows and its tasks are untouched (rediscovery does nothing); if it had
  none, any row it has now is \<open>QUEUED\<close>; and if some cycle whose selects and inserts go
  through returned it, it has exactly one row.
\<close>

theorem discovery_dedup:
  assumes "length (rows_of fid w0) \<le> 1" "length (tasks_of fid w0) \<le> length (rows_of fid w0)"
  shows "length (rows_of fid (run_cycles cs w0)) \<le> 1
     \<and> length (tasks_of fid (run_cycles cs w0)) \<le> length (rows_of fid (run_cycles cs w0))
     \<and> (rows_of fid w0 \<noteq> [] \<longrightarrow>
           rows_of fid (run_cycles cs w0) = rows_of fid w0
         \<and> tasks_of fid (run_cycles cs w0) = tasks_of fid w0)
     \<and> (rows_of fid w0 = [] \<longrightarrow>
           (\<forall>r \<in> set (rows_of fid (run_cycles cs w0)). status_of r = Some QUEUED))
     \<and> ((\<exists>c \<in> set cs. fid \<in> set (map fm_file_id (files_returned c w0))
            \<and> (\<forall>i. cy_select_ok c i) \<and> (\<forall>i. cy_insert_ok c i)) \<longrightarrow>
           length (rows_of fid (run_cycles cs w0)) = 1)"
proof -
  have g: "grows fid w0 (run_cycles cs w0)" by (rule run_cycles_grows)
  have a: "length (rows_of fid (run_cycles cs w0)) \<le> 1"
    using g assms by (cases "rows_of fid w0 = []") (simp_all add: grows_def)
  have b: "length (tasks_of fid (run_cycles cs w0)) \<le> length (rows_of fid (run_cycles cs w0))"
    using g assms by (cases "rows_of fid w0 = []") (simp_all add: grows_def)
  have c: "rows_of fid w0 \<noteq> [] \<longrightarrow>
           rows_of fid (run_cycles cs w0) = rows_of fid w0
         \<and> tasks_of fid (run_cycles cs w0) = tasks_of fid w0"
    using g by (simp add: grows_def)
  have d: "rows_of fid w0 = [] \<longrightarrow>
           (\<forall>r \<in> set (rows_of fid (run_cycles cs w0)). status_of r = Some QUEUED)"
    using g by (simp add: grows_def)
  have e: "(\<exists>c \<in> set cs. fid \<in> set (map fm_file_id (files_returned c w0))
            \<and> (\<forall>i. cy_select_ok c i) \<and> (\<forall>i. cy_insert_ok c i)) \<longrightarrow>
           length (rows_of fid (run_cycles cs w0)) = 1"
  proof
    assume "\<exists>c \<in> set cs. fid \<in> set (map fm_file_id (files_returned c w0))
            \<and> (\<forall>i. cy_select_ok c i) \<and> (\<forall>i. cy_insert_ok c i)"
    then obtain c where "c \<in> set cs" "fid \<in> set (map fm_file_id (files_returned c w0))"
      "\<forall>i. cy_select_ok c i" "\<forall>i. cy_insert_ok c i" by blast
    then have "rows_of fid (run_cycles cs w0) \<noteq> []" by (rule run_cycles_present)
    then show "length (rows_of fid (run_cycles cs w0)) = 1"
      using a by (cases "rows_of fid (run_cycles cs w0)") simp_all
  qed
  show ?thesis using a b c d e by blast
qed

lemma search_window_example:
  "search_window 63839700000000000 1 30 = Inr (63839694600000000, 63839696400000000)"
  by (simp add: search_window_def timedelta_hours_def timedelta_minutes_def datetime_sub_def
        timedelta_ok_def us_per_hour_def us_per_minute_def us_per_day_def datetime_max_def)

lemma files_returned_example:
  "files_returned (cycle_with (SearchOk 2 [Some (meta_X ''X1''), Some (meta_X ''X1'')])) w
     = [meta_X ''X1'', meta_X ''X1'']"
  by (simp add: files_returned_def query_new_files_def cycle_with_def search_window_example
      List.map_filter_def log_api_query_def)

text \<open>
  The scenario of the specification: \<open>X1\<close> is returned twice by the first cycle and
  once more by the second, into an empty manifest.
\<close>

theorem discovery_dedup_witness:
  "length (rows_of ''X1'' empty_world) \<le> 1
   \<and> length (tasks_of ''X1'' empty_world) \<le> length (rows_of ''X1'' empty_world)
   \<and> rows_of ''X1'' empty_world = []
   \<and> (\<exists>c \<in> set [cycle_with (SearchOk 2 [Some (meta_X ''X1''), Some (meta_X ''X1'')]),
                   cycle_with (SearchOk 1 [Some (meta_X ''X1'')])].
         ''X1'' \<in> set (map fm_file_id (files_returned c empty_world))
         \<and> (\<forall>i. cy_select_ok c i) \<and> (\<forall>i. cy_insert_ok c i))
   \<and> length (rows_of ''X1'' (run_cycles
        [cycle_with (SearchOk 2 [Some (meta_X ''X1''), Some (meta_X ''X1'')]),
         cycle_with (SearchOk 1 [Some (meta_X ''X1'')])] empty_world)) = 1
   \<and> length (tasks_of ''X1'' (run_cycles
        [cycle_with (SearchOk 2 [Some (meta_X ''X1''), Some (meta_X ''X1'')]),
         cycle_with (SearchOk 1 [Some (meta_X ''X1'')])] empty_world)) \<le> 1
   \<and> list_all (\<lambda>r. status_of r = Some QUEUED)
        (rows_of ''X1'' (run_cycles
        [cycle_with (SearchOk 2 [Some (meta_X ''X1''), Some (meta_X ''X1'')]),
         cycle_with (SearchOk 1 [Some (meta_X ''X1'')])] empty_world))"
proof -
  let ?cs = "[cycle_with (SearchOk 2 [Some (meta_X ''X1''), Some (meta_X ''X1'')]),
              cycle_with (SearchOk 1 [Some (meta_X ''X1'')])]"
  have r: "rows_of ''X1'' empty_world = []" "tasks_of ''X1'' empty_world = []"
    by (simp_all add: rows_of_def tasks_of_def empty_world_def)
  have h: "\<exists>c \<in> set ?cs. ''X1'' \<in> set (map fm_file_id (files_returned c empty_world))
         \<and> (\<forall>i. cy_select_ok c i) \<and> (\<forall>i. cy_insert_ok c i)"
    by (simp add: files_returned_example) (simp add: cycle_with_def meta_X_def)
  have a: "length (rows_of ''X1'' empty_world) \<le> 1"
    and b: "length (tasks_of ''X1'' empty_world) \<le> length (rows_of ''X1'' empty_world)"
    by (simp_all add: r)
  note t = discovery_dedup [of "''X1''" empty_world ?cs, OF a b]
  have one: "length (rows_of ''X1'' (run_cycles ?cs empty_world)) = 1"
    using t h by blast
  have "length (tasks_of ''X1'' (run_cycles ?cs empty_world)) \<le> 1"
    using t one by linarith
  moreover have "\<forall>r \<in> set (rows_of ''X1'' (run_cycles ?cs empty_world)). status_of r = Some QUEUED"
    using t r(1) by blast
  ultimately show ?thesis using a b r(1) h one by (simp add: list_all_iff)
qed

subsection \<open>A failing catalog\<close>

lemma query_new_files_catalog_raised:
  assumes "search_window (cy_now c) (cy_min_age_hours c) (cy_lookback_minutes c) = Inr (dtstart, dtend)"
    and "cy_catalog c dtstart dtend = SearchRaised err"
  shows "query_new_files c w =
           (log_api_query (cy_log_ok c) (cy_logged_at c) 0 0 (cy_query_duration c) ''FAILED''
              (Some (str_exc err)) (w\<lparr>catalog_calls := catalog_calls w @ [(dtstart, dtend)]\<rparr>), Inr [])"
  using assms by (simp add: query_new_files_def)

text \<open>
  C8.  In a cycle whose catalog search raises, \<open>query_new_files\<close> catches the exception
  and returns the empty list; the catalog has been called once and is not called again;
  when the log statement goes through, the query log gains one entry with status
  \<open>FAILED\<close>, zero counts and the exception's message; the scheduled cycle ends normally
  with the manifest, the download queue and every record's status untouched.
\<close>

theorem catalog_failure_logged:
  assumes "search_window (cy_now c) (cy_min_age_hours c) (cy_lookback_minutes c) = Inr (dtstart, dtend)"
    and "cy_catalog c dtstart dtend = SearchRaised err"
  shows "snd (query_new_files c w) = Inr []
     \<and> catalog_calls (scheduled_poll c w) = catalog_calls w @ [(dtstart, dtend)]
     \<and> (cy_log_ok c \<longrightarrow>
          api_query_log (scheduled_poll c w) = api_query_log w @
            [\<lparr>query_timestamp = cy_logged_at c, files_found = 0, files_new = 0,
              query_duration_sec = cy_query_duration c, query_status = ''FAILED'',
              query_error = Some (str_exc err)\<rparr>])
     \<and> file_manifest (scheduled_poll c w) = file_manifest w
     \<and> download_queue (scheduled_poll c w) = download_queue w
     \<and> status_trace (scheduled_poll c w) = status_trace w"
  by (simp add: query_new_files_catalog_raised[OF assms] scheduled_poll_def poll_def log_api_query_def)

theorem catalog_failure_logged_witness:
  "search_window (cy_now (cycle_with (SearchRaised (PyException ''connection refused''))))
      (cy_min_age_hours (cycle_with (SearchRaised (PyException ''connection refused''))))
      (cy_lookback_minutes (cycle_with (SearchRaised (PyException ''connection refused''))))
     = Inr (63839694600000000, 63839696400000000)
   \<and> cy_catalog (cycle_with (SearchRaised (PyException ''connection refused'')))
        63839694600000000 63839696400000000 = SearchRaised (PyException ''connection refused'')
   \<and> cy_log_ok (cycle_with (SearchRaised (PyException ''connection refused'')))
   \<and> api_query_log (scheduled_poll (cycle_with (SearchRaised (PyException ''connection refused''))) empty_world) =
        [\<lparr>query_timestamp = 63839700002000000, files_found = 0, files_new = 0,
          query_duration_sec = 2, query_status = ''FAILED'',
          query_error = Some ''connection refused''\<rparr>]
   \<and> catalog_calls (scheduled_poll (cycle_with (SearchRaised (PyException ''connection refused''))) empty_world)
        = [(63839694600000000, 63839696400000000)]
   \<and> file_manifest (scheduled_poll (cycle_with (SearchRaised (PyException ''connection refused''))) empty_world) = []
   \<and> download_queue (scheduled_poll (cycle_with (SearchRaised (PyException ''connection refused''))) empty_world) = []"
proof -
  let ?c = "cycle_with (SearchRaised (PyException ''connection refused''))"
  have a: "search_window (cy_now ?c) (cy_min_age_hours ?c) (cy_lookback_minutes ?c)
             = Inr (63839694600000000, 63839696400000000)"
    by (simp add: cycle_with_def search_window_example)
  have b: "cy_catalog ?c 63839694600000000 63839696400000000
             = SearchRaised (PyException ''connection refused'')"
    by (simp add: cycle_with_def)
  show ?thesis
    using catalog_failure_logged [OF a b, of empty_world] a b
    by (simp add: cycle_with_def empty_world_def)
qed

subsection \<open>What the query log records\<close>

lemmas poller_defs = scheduled_poll_def poll_def query_new_files_def filter_new_files_def
  enqueue_downloads_def log_new_file_def log_api_query_def is_file_processed_def
  rows_of_def tasks_of_def has_file_def new_row_def download_task_of_def List.map_filter_def
  cycle_with_def meta_X_def empty_world_def search_window_example

lemma query_log_entry_new_zero:
  "api_query_log (fst (query_new_files c w)) = api_query_log w
   \<or> (\<exists>e. api_query_log (fst (query_new_files c w)) = api_query_log w @ [e] \<and> files_new e = 0)"
  by (auto simp add: query_new_files_def log_api_query_def Let_def
      split: sum.splits search_outcome.splits prod.splits)

text \<open>
  C7.  A cycle that finds two products, both new to the manifest, inserts both and
  enqueues both, and its query log entry says two found and zero new; a cycle whose search
  reports zero results writes no entry at all, although the catalog was queried.
\<close>

theorem query_log_new_count_stays_zero:
  "map files_found (api_query_log (scheduled_poll
       (cycle_with (SearchOk 2 [Some (meta_X ''X1''), Some (meta_X ''X2'')])) empty_world)) = [2]
   \<and> map files_new (api_query_log (scheduled_poll
       (cycle_with (SearchOk 2 [Some (meta_X ''X1''), Some (meta_X ''X2'')])) empty_world)) = [0]
   \<and> length (file_manifest (scheduled_poll
       (cycle_with (SearchOk 2 [Some (meta_X ''X1''), Some (meta_X ''X2'')])) empty_world)) = 2
   \<and> map dt_file_id (download_queue (scheduled_poll
       (cycle_with (SearchOk 2 [Some (meta_X ''X1''), Some (meta_X ''X2'')])) empty_world)) = [''X1'', ''X2'']
   \<and> api_query_log (scheduled_poll (cycle_with (SearchOk 0 [])) empty_world) = []
   \<and> catalog_calls (scheduled_poll (cycle_with (SearchOk 0 [])) empty_world)
        = [(63839694600000000, 63839696400000000)]"
  by (simp add: poller_defs)

subsection \<open>What each statement changes\<close>

lemma apply_updates_Nil [simp]: "apply_updates [] r = r"
  by (simp add: apply_updates_def)

lemma apply_updates_Cons [simp]: "apply_updates ((c, v) # us) r = apply_updates us (r(c \<mapsto> v))"
  by (simp add: apply_updates_def)

lemma apply_updates_append [simp]: "apply_updates (us @ vs) r = apply_updates vs (apply_updates us r)"
  by (simp add: apply_updates_def)

lemma apply_updates_other: "c \<notin> fst ` set us \<Longrightarrow> apply_updates us r c = r c"
  by (induction us arbitrary: r) auto

lemma apply_updates_opt_set [simp]:
  "apply_updates (opt_set c v mk) r = (case v of None \<Rightarrow> r | Some x \<Rightarrow> r(c \<mapsto> mk x))"
  by (simp add: opt_set_def split: option.splits)

lemma not_in_opt_set: "c' \<noteq> c \<Longrightarrow> c' \<notin> fst ` set (opt_set c v mk)"
  by (auto simp add: opt_set_def split: option.splits)

lemma sql_update_frame [simp]:
  "api_query_log (sql_update fid s us w) = api_query_log w"
  "processing_metrics (sql_update fid s us w) = processing_metrics w"
  "download_queue (sql_update fid s us w) = download_queue w"
  "processing_queue (sql_update fid s us w) = processing_queue w"
  "fs (sql_update fid s us w) = fs w"
  "db_clock (sql_update fid s us w) = db_clock w"
  "catalog_calls (sql_update fid s us w) = catalog_calls w"
  by (simp_all add: sql_update_def)

lemma rows_of_sql_update:
  assumes "c_file_id \<notin> fst ` set us"
  shows "rows_of f (sql_update fid s us w) =
           (if f = fid then map (apply_updates us) (rows_of f w) else rows_of f w)"
proof -
  have h: "has_file g (apply_updates us r) = has_file g r" for g r
    using apply_updates_other[OF assms] by (simp add: has_file_def)
  have "filter (has_file f) (map (\<lambda>r. if has_file fid r then apply_updates us r else r) rs)
          = (if f = fid then map (apply_updates us) (filter (has_file f) rs) else filter (has_file f) rs)" for rs
    by (induction rs) (auto simp add: h, auto simp add: has_file_def)
  then show ?thesis by (simp add: rows_of_def sql_update_def)
qed

lemma statuses_of_sql_update:
  "statuses_of f (sql_update fid s us w) =
     statuses_of f w @ (if f = fid \<and> rows_of fid w \<noteq> [] then [s] else [])"
  by (simp add: statuses_of_def sql_update_def)

lemma log_metrics_frame [simp]:
  "file_manifest (log_metrics ok fid stage d st e w) = file_manifest w"
  "status_trace (log_metrics ok fid stage d st e w) = status_trace w"
  "download_queue (log_metrics ok fid stage d st e w) = download_queue w"
  "processing_queue (log_metrics ok fid stage d st e w) = processing_queue w"
  "fs (log_metrics ok fid stage d st e w) = fs w"
  "db_clock (log_metrics ok fid stage d st e w) = db_clock w"
  "rows_of f (log_metrics ok fid stage d st e w) = rows_of f w"
  "statuses_of f (log_metrics ok fid stage d st e w) = statuses_of f w"
  by (simp_all add: log_metrics_def rows_of_def statuses_of_def)

lemma cleanup_file_frame [simp]:
  "file_manifest (cleanup_file ok p w) = file_manifest w"
  "status_trace (cleanup_file ok p w) = status_trace w"
  "download_queue (cleanup_file ok p w) = download_queue w"
  "processing_queue (cleanup_file ok p w) = processing_queue w"
  "processing_metrics (cleanup_file ok p w) = processing_metrics w"
  "rows_of f (cleanup_file ok p w) = rows_of f w"
  "statuses_of f (cleanup_file ok p w) = statuses_of f w"
  by (simp_all add: cleanup_file_def rows_of_def statuses_of_def split: option.splits node.splits)

lemma under_self [simp]: "under d d"
  by (simp add: under_def)

lemma cleanup_file_gone: "fs (cleanup_file True p w) p = None"
  by (simp add: cleanup_file_def rmtree_def split: option.splits node.splits)

lemma cleanup_file_tree:
  "fs w p = Some Dir \<Longrightarrow> under p q \<Longrightarrow> fs (cleanup_file True p w) q = None"
  by (simp add: cleanup_file_def rmtree_def)

lemma cleanup_file_nothing_new: "fs (cleanup_file ok p w) q \<noteq> None \<Longrightarrow> fs w q \<noteq> None"
  by (auto simp add: cleanup_file_def rmtree_def split: option.splits node.splits if_splits)

lemma ups_frame [simp]:
  "api_query_log (fst (update_processing_status ok fid s args w)) = api_query_log w"
  "processing_metrics (fst (update_processing_status ok fid s args w)) = processing_metrics w"
  "download_queue (fst (update_processing_status ok fid s args w)) = download_queue w"
  "processing_queue (fst (update_processing_status ok fid s args w)) = processing_queue w"
  "fs (fst (update_processing_status ok fid s args w)) = fs w"
  "db_clock (fst (update_processing_status ok fid s args w)) = db_clock w"
  by (simp_all add: update_processing_status_def)

lemma ups_eq: "fst (update_processing_status True fid s args w) = sql_update fid s (proc_updates s args w) w"
  by (simp add: update_processing_status_def proc_updates_def)

lemma proc_updates_no_id: "c_file_id \<notin> fst ` set (proc_updates s args w)"
  by (auto simp add: proc_updates_def image_Un not_in_opt_set)

lemma ups_rows:
  "rows_of f (fst (update_processing_status True fid s args w)) =
     (if f = fid then map (apply_updates (proc_updates s args w)) (rows_of f w) else rows_of f w)"
  by (simp add: ups_eq rows_of_sql_update[OF proc_updates_no_id])

lemma ups_statuses:
  "statuses_of f (fst (update_processing_status True fid s args w)) =
     statuses_of f w @ (if f = fid \<and> rows_of fid w \<noteq> [] then [s] else [])"
  by (simp add: ups_eq statuses_of_sql_update)

lemma proc_updates_status: "status_of (apply_updates (proc_updates s args w) r) = Some s"
  by (simp add: proc_updates_def status_of_def split: option.splits)

lemma proc_updates_cols:
  "apply_updates (proc_updates s args w) r c_skip_reason =
     (case pa_skip_reason args of None \<Rightarrow> r c_skip_reason | Some x \<Rightarrow> Some (Text x))"
  "apply_updates (proc_updates s args w) r c_error_message =
     (case pa_error_message args of None \<Rightarrow> r c_error_message | Some x \<Rightarrow> Some (Text x))"
  "apply_updates (proc_updates s args w) r c_quality_score =
     (case pa_quality_score args of None \<Rightarrow> r c_quality_score | Some x \<Rightarrow> Some (Num x))"
  "apply_updates (proc_updates s args w) r c_missing_data_pct =
     (case pa_missing_data_pct args of None \<Rightarrow> r c_missing_data_pct | Some x \<Rightarrow> Some (Num x))"
  "apply_updates (proc_updates s args w) r c_output_file_path =
     (case pa_output_path args of None \<Rightarrow> r c_output_file_path | Some x \<Rightarrow> Some (Text x))"
  by (simp_all add: proc_updates_def split: option.splits)

subsection \<open>The quality gate\<close>

lemma assess_skip_reason: "skip (assess qa sc) \<Longrightarrow> \<exists>x. skip_reason (assess qa sc) = Some x"
  by (auto simp add: assess_def Let_def quality_check_error_def saturation_and_score_def
      split: sum.splits option.splits if_splits)

lemma assess_error:
  assumes "sc_hrv sc = Inl e \<or>
          (\<exists>hm. sc_hrv sc = Inr hm \<and> \<not> max_missing_pct qa < hm_missing_pct hm
                \<and> sc_solar_zenith sc = Some (Inl e))"
  shows "skip (assess qa sc)"
    and "skip_reason (assess qa sc) = Some (''QUALITY_CHECK_ERROR: '' @ str_exc e)"
  using assms by (auto simp add: assess_def Let_def quality_check_error_def)

lemma process_file_skip:
  assumes "pr_load p = Some sc" "skip (assess qa sc)"
  shows "process_file qa p t w =
     (cleanup_file (pr_rm_ok p) (pt_file_path t)
        (fst (update_processing_status (pr_db_ok p) (pt_file_id t) SKIPPED
                (skipped_args p (assess qa sc))
                (log_metrics (pr_db_ok p) (pt_file_id t) ''quality_check''
                   (pr_elapsed p ''quality_check'') ''SUCCESS'' None
                   (log_metrics (pr_db_ok p) (pt_file_id t) ''load_nat''
                      (pr_elapsed p ''load_nat'') ''SUCCESS'' None (started p t w))))),
      Returned ''skipped'')"
  using assms by (simp add: process_file_def process_body_def Let_def skipped_args_def started_def)

lemma started_rows:
  "pr_db_ok p \<Longrightarrow> rows_of (pt_file_id t) (started p t w) \<noteq> [] \<longleftrightarrow> rows_of (pt_file_id t) w \<noteq> []"
  by (simp add: started_def ups_rows)

lemma started_statuses:
  "pr_db_ok p \<Longrightarrow> rows_of (pt_file_id t) w \<noteq> [] \<Longrightarrow>
     statuses_of (pt_file_id t) (started p t w) = statuses_of (pt_file_id t) w @ [PROCESSING]"
  by (simp add: started_def ups_statuses)

lemma started_frame [simp]:
  "fs (started p t w) = fs w" "processing_queue (started p t w) = processing_queue w"
  "download_queue (started p t w) = download_queue w"
  "processing_metrics (started p t w) = processing_metrics w"
  by (simp_all add: started_def)

text \<open>
  C5.  When the loaded scene's quality report says skip, the manifest statements go
  through and the record exists: the run returns \<open>skipped\<close> and the worker does not run
  the task again; the record's statuses gain \<open>PROCESSING\<close> then \<open>SKIPPED\<close>; its row
  holds \<open>SKIPPED\<close>, the skip reason, the quality score and the missing-data percentage;
  when deleting goes through the raw path is gone, with everything below it if it was a
  directory; nothing exists on disk that did not before, so no output artifact was made;
  no task was sent; and the only stages that ran are loading and the quality check.
\<close>

theorem skip_is_terminal:
  assumes "pr_load p = Some sc" "skip (assess qa sc)" "pr_db_ok p"
    and "rows_of (pt_file_id t) w \<noteq> []"
  shows "snd (process_file qa p t w) = Returned ''skipped''
     \<and> run_process_task qa (p # ps) t w = fst (process_file qa p t w)
     \<and> statuses_of (pt_file_id t) (fst (process_file qa p t w))
         = statuses_of (pt_file_id t) w @ [PROCESSING, SKIPPED]
     \<and> rows_of (pt_file_id t) (fst (process_file qa p t w)) \<noteq> []
     \<and> (\<forall>r \<in> set (rows_of (pt_file_id t) (fst (process_file qa p t w))).
           status_of r = Some SKIPPED
         \<and> r c_skip_reason = map_option Text (skip_reason (assess qa sc))
         \<and> skip_reason (assess qa sc) \<noteq> None
         \<and> r c_quality_score = Some (Num (quality_score (assess qa sc)))
         \<and> r c_missing_data_pct = Some (Num (missing_data_pct (assess qa sc))))
     \<and> (pr_rm_ok p \<longrightarrow>
           fs (fst (process_file qa p t w)) (pt_file_path t) = None
         \<and> (fs w (pt_file_path t) = Some Dir \<longrightarrow>
              (\<forall>q. under (pt_file_path t) q \<longrightarrow> fs (fst (process_file qa p t w)) q = None)))
     \<and> (\<forall>q. fs (fst (process_file qa p t w)) q \<noteq> None \<longrightarrow> fs w q \<noteq> None)
     \<and> processing_queue (fst (process_file qa p t w)) = processing_queue w
     \<and> download_queue (fst (process_file qa p t w)) = download_queue w
     \<and> map m_stage (processing_metrics (fst (process_file qa p t w)))
         = map m_stage (processing_metrics w) @ [''load_nat'', ''quality_check'']"
proof -
  note pf = process_file_skip[OF assms(1,2), of t w]
  obtain x where x: "skip_reason (assess qa sc) = Some x"
    using assess_skip_reason[OF assms(2)] by blast
  have ok: "pr_db_ok p = True" using assms(3) by simp
  have r1: "rows_of (pt_file_id t) (started p t w) \<noteq> []"
    using started_rows[OF assms(3)] assms(4) by simp
  have a: "snd (process_file qa p t w) = Returned ''skipped''" by (simp add: pf)
  have b: "run_process_task qa (p # ps) t w = fst (process_file qa p t w)" by (simp add: pf)
  have c: "statuses_of (pt_file_id t) (fst (process_file qa p t w))
         = statuses_of (pt_file_id t) w @ [PROCESSING, SKIPPED]"
    using r1 by (simp add: pf ok ups_statuses started_statuses[OF assms(3,4)])
  have d: "rows_of (pt_file_id t) (fst (process_file qa p t w)) \<noteq> []"
    using r1 by (simp add: pf ok ups_rows)
  have e: "\<forall>r \<in> set (rows_of (pt_file_id t) (fst (process_file qa p t w))).
           status_of r = Some SKIPPED
         \<and> r c_skip_reason = map_option Text (skip_reason (assess qa sc))
         \<and> skip_reason (assess qa sc) \<noteq> None
         \<and> r c_quality_score = Some (Num (quality_score (assess qa sc)))
         \<and> r c_missing_data_pct = Some (Num (missing_data_pct (assess qa sc)))"
    by (auto simp add: pf ok ups_rows proc_updates_status proc_updates_cols skipped_args_def no_args_def x)
  have f: "pr_rm_ok p \<longrightarrow>
           fs (fst (process_file qa p t w)) (pt_file_path t) = None
         \<and> (fs w (pt_file_path t) = Some Dir \<longrightarrow>
              (\<forall>q. under (pt_file_path t) q \<longrightarrow> fs (fst (process_file qa p t w)) q = None))"
    by (auto simp add: pf cleanup_file_gone cleanup_file_tree)
  have g: "\<forall>q. fs (fst (process_file qa p t w)) q \<noteq> None \<longrightarrow> fs w q \<noteq> None"
    using cleanup_file_nothing_new by (fastforce simp add: pf)
  have h: "processing_queue (fst (process_file qa p t w)) = processing_queue w
     \<and> download_queue (fst (process_file qa p t w)) = download_queue w"
    by (simp add: pf)
  have i: "map m_stage (processing_metrics (fst (process_file qa p t w)))
         = map m_stage (processing_metrics w) @ [''load_nat'', ''quality_check'']"
    by (simp add: pf ok log_metrics_def)
  show ?thesis using a b c d e f g h i by blast
qed

text \<open>
  C10.  When reading or measuring the HRV channel raises, or the solar zenith angle does
  after the missing-data check has passed, \<open>assess\<close> returns a report with \<open>skip\<close> set and
  the reason \<open>QUALITY_CHECK_ERROR: \<close> followed by the exception's message; a processing
  run that loaded such a scene, with the manifest statements going through and the record
  present, returns \<open>skipped\<close> and leaves the record \<open>SKIPPED\<close> with that reason, having
  written \<open>PROCESSING\<close> and \<open>SKIPPED\<close> and never \<open>PROCESSING_FAILED\<close>.
\<close>

theorem quality_error_skips:
  assumes "sc_hrv sc = Inl e \<or>
          (\<exists>hm. sc_hrv sc = Inr hm \<and> \<not> max_missing_pct qa < hm_missing_pct hm
                \<and> sc_solar_zenith sc = Some (Inl e))"
    and "pr_load p = Some sc" "pr_db_ok p" "rows_of (pt_file_id t) w \<noteq> []"
  shows "skip (assess qa sc)
     \<and> skip_reason (assess qa sc) = Some (''QUALITY_CHECK_ERROR: '' @ str_exc e)
     \<and> snd (process_file qa p t w) = Returned ''skipped''
     \<and> statuses_of (pt_file_id t) (fst (process_file qa p t w))
         = statuses_of (pt_file_id t) w @ [PROCESSING, SKIPPED]
     \<and> rows_of (pt_file_id t) (fst (process_file qa p t w)) \<noteq> []
     \<and> (\<forall>r \<in> set (rows_of (pt_file_id t) (fst (process_file qa p t w))).
           status_of r = Some SKIPPED
         \<and> r c_skip_reason = Some (Text (''QUALITY_CHECK_ERROR: '' @ str_exc e)))"
proof -
  note sk = assess_error[OF assms(1)]
  note pf = process_file_skip[OF assms(2) sk(1), of t w]
  have ok: "pr_db_ok p = True" using assms(3) by simp
  have r1: "rows_of (pt_file_id t) (started p t w) \<noteq> []"
    using started_rows[OF assms(3)] assms(4) by simp
  have c: "statuses_of (pt_file_id t) (fst (process_file qa p t w))
         = statuses_of (pt_file_id t) w @ [PROCESSING, SKIPPED]"
    using r1 by (simp add: pf ok ups_statuses started_statuses[OF assms(3,4)])
  have d: "rows_of (pt_file_id t) (fst (process_file qa p t w)) \<noteq> []"
    using r1 by (simp add: pf ok ups_rows)
  have e: "\<forall>r \<in> set (rows_of (pt_file_id t) (fst (process_file qa p t w))).
           status_of r = Some SKIPPED
         \<and> r c_skip_reason = Some (Text (''QUALITY_CHECK_ERROR: '' @ str_exc e))"
    by (auto simp add: pf ok ups_rows proc_updates_status proc_updates_cols skipped_args_def
        no_args_def sk(2))
  show ?thesis using sk c d e by (simp add: pf)
qed

subsection \<open>Failures of the transform\<close>







subsection \<open>The processing worker on the downloaded record\<close>

lemma rows_world_downloaded: "rows_of ''X1'' world_downloaded \<noteq> []"
  by (simp add: rows_of_def world_downloaded_def empty_world_def has_file_def new_row_def)

lemma statuses_world_downloaded:
  "statuses_of ''X1'' world_downloaded = [QUEUED, DOWNLOADING, DOWNLOADED]"
  by (simp add: statuses_of_def world_downloaded_def empty_world_def)

lemma fs_world_downloaded: "fs world_downloaded raw_dir_X1 = Some Dir"
  by (simp add: world_downloaded_def empty_world_def raw_dir_X1_def)

lemma night_scene_skips:
  "skip (assess qa_default night_scene)"
  "skip_reason (assess qa_default night_scene) = Some ''NIGHTTIME_IMAGE (SZA=100.0)''"
  by (simp_all add: assess_def qa_default_def night_scene_def)

theorem skip_is_terminal_witness:
  "pr_load (processing_with (Some night_scene) None None) = Some night_scene
   \<and> skip (assess qa_default night_scene)
   \<and> pr_db_ok (processing_with (Some night_scene) None None)
   \<and> pr_rm_ok (processing_with (Some night_scene) None None)
   \<and> rows_of (pt_file_id task_X1) world_downloaded \<noteq> []
   \<and> fs world_downloaded (pt_file_path task_X1) = Some Dir
   \<and> under (pt_file_path task_X1) (raw_dir_X1 @ ''/product_data.nat'')
   \<and> snd (process_file qa_default (processing_with (Some night_scene) None None) task_X1
            world_downloaded) = Returned ''skipped''
   \<and> statuses_of ''X1'' (fst (process_file qa_default
        (processing_with (Some night_scene) None None) task_X1 world_downloaded))
        = [QUEUED, DOWNLOADING, DOWNLOADED, PROCESSING, SKIPPED]
   \<and> list_all (\<lambda>r. status_of r = Some SKIPPED
       \<and> r c_skip_reason = Some (Text ''NIGHTTIME_IMAGE (SZA=100.0)''))
        (rows_of ''X1'' (fst (process_file qa_default
        (processing_with (Some night_scene) None None) task_X1 world_downloaded)))
   \<and> fs (fst (process_file qa_default (processing_with (Some night_scene) None None) task_X1
            world_downloaded)) raw_dir_X1 = None
   \<and> fs (fst (process_file qa_default (processing_with (Some night_scene) None None) task_X1
            world_downloaded)) (raw_dir_X1 @ ''/product_data.nat'') = None
   \<and> fs (fst (process_file qa_default (processing_with (Some night_scene) None None) task_X1
            world_downloaded)) ''/processed/2024/01/01/20240101_084500_HRV_Paris.nc'' = None"
proof -
  let ?p = "processing_with (Some night_scene) None None"
  have a: "pr_load ?p = Some night_scene" by (simp add: processing_with_def)
  have c: "pr_db_ok ?p" and rm: "pr_rm_ok ?p" by (simp_all add: processing_with_def)
  have d: "rows_of (pt_file_id task_X1) world_downloaded \<noteq> []"
    using rows_world_downloaded by (simp add: task_X1_def)
  have f: "fs world_downloaded (pt_file_path task_X1) = Some Dir"
    using fs_world_downloaded by (simp add: task_X1_def)
  have u: "under (pt_file_path task_X1) (raw_dir_X1 @ ''/product_data.nat'')"
    by (simp add: under_def task_X1_def)
  have n: "fs world_downloaded ''/processed/2024/01/01/20240101_084500_HRV_Paris.nc'' = None"
    by (simp add: world_downloaded_def empty_world_def raw_dir_X1_def)
  have id: "pt_file_id task_X1 = ''X1''" "pt_file_path task_X1 = raw_dir_X1"
    by (simp_all add: task_X1_def)
  note t = skip_is_terminal [OF a night_scene_skips(1) c d, of "[]"]
  show ?thesis
    using t a c rm d f u n night_scene_skips statuses_world_downloaded
    by (auto simp add: id list_all_iff)
qed





lemma no_hrv_scene_raises:
  "sc_hrv no_hrv_scene = Inl (PyException ''HRV'') \<or>
   (\<exists>hm. sc_hrv no_hrv_scene = Inr hm \<and> \<not> max_missing_pct qa_default < hm_missing_pct hm
         \<and> sc_solar_zenith no_hrv_scene = Some (Inl (PyException ''HRV'')))"
  by (simp add: no_hrv_scene_def)

theorem quality_error_skips_witness:
  "sc_hrv no_hrv_scene = Inl (PyException ''HRV'')
   \<and> pr_load (processing_with (Some no_hrv_scene) None None) = Some no_hrv_scene
   \<and> pr_db_ok (processing_with (Some no_hrv_scene) None None)
   \<and> rows_of (pt_file_id task_X1) world_downloaded \<noteq> []
   \<and> skip (assess qa_default no_hrv_scene)
   \<and> skip_reason (assess qa_default no_hrv_scene) = Some ''QUALITY_CHECK_ERROR: HRV''
   \<and> snd (process_file qa_default (processing_with (Some no_hrv_scene) None None) task_X1
            world_downloaded) = Returned ''skipped''
   \<and> statuses_of ''X1'' (fst (process_file qa_default
        (processing_with (Some no_hrv_scene) None None) task_X1 world_downloaded))
        = [QUEUED, DOWNLOADING, DOWNLOADED, PROCESSING, SKIPPED]
   \<and> list_all (\<lambda>r. status_of r = Some SKIPPED
       \<and> r c_skip_reason = Some (Text ''QUALITY_CHECK_ERROR: HRV''))
        (rows_of ''X1'' (fst (process_file qa_default
        (processing_with (Some no_hrv_scene) None None) task_X1 world_downloaded)))"
proof -
  let ?p = "processing_with (Some no_hrv_scene) None None"
  have a: "pr_load ?p = Some no_hrv_scene" and c: "pr_db_ok ?p"
    by (simp_all add: processing_with_def)
  have d: "rows_of (pt_file_id task_X1) world_downloaded \<noteq> []"
    using rows_world_downloaded by (simp add: task_X1_def)
  have id: "pt_file_id task_X1 = ''X1''" by (simp add: task_X1_def)
  have h: "sc_hrv no_hrv_scene = Inl (PyException ''HRV'')" by (simp add: no_hrv_scene_def)
  note t = quality_error_skips [OF no_hrv_scene_raises a c d]
  show ?thesis
    using t a c d h statuses_world_downloaded by (auto simp add: id list_all_iff)
qed

subsection \<open>The download worker, statement by statement\<close>

lemma dus_frame [simp]:
  "api_query_log (fst (update_download_status ok fid s a e f d w)) = api_query_log w"
  "processing_metrics (fst (update_download_status ok fid s a e f d w)) = processing_metrics w"
  "download_queue (fst (update_download_status ok fid s a e f d w)) = download_queue w"
  "processing_queue (fst (update_download_status ok fid s a e f d w)) = processing_queue w"
  "fs (fst (update_download_status ok fid s a e f d w)) = fs w"
  "db_clock (fst (update_download_status ok fid s a e f d w)) = db_clock w"
  by (simp_all add: update_download_status_def)







lemma write_files_frame [simp]:
  "file_manifest (write_files d ns w) = file_manifest w"
  "status_trace (write_files d ns w) = status_trace w"
  "download_queue (write_files d ns w) = download_queue w"
  "processing_queue (write_files d ns w) = processing_queue w"
  "db_clock (write_files d ns w) = db_clock w"
  "rows_of g (write_files d ns w) = rows_of g w"
  "statuses_of g (write_files d ns w) = statuses_of g w"
  by (simp_all add: write_files_def rows_of_def statuses_of_def)

lemma fs_update_frame [simp]:
  "rows_of g (w\<lparr>fs := f\<rparr>) = rows_of g w"
  "statuses_of g (w\<lparr>fs := f\<rparr>) = statuses_of g w"
  by (simp_all add: rows_of_def statuses_of_def)








lemmas downloader_defs = download_file_def download_body_def download_failed_def
  download_timed_out_def download_on_failure_def remove_partial_def retry_countdown_def
  task_retry_def update_download_status_def sql_update_def log_metrics_def write_files_def
  join_path_def rmtree_def under_def rows_of_def has_file_def statuses_of_def status_of_def
  attempts_of_def

lemmas downloader_inputs = cfg_X1_def source_cfg_def world_queued_def empty_world_def
  download_X1_def download_task_of_def meta_X_def cycle_with_def failing_attempt_def
  good_attempt_def raw_dir_X1_def new_row_def



subsection \<open>The partial artifact\<close>

text \<open>
  C3.  The record \<open>X1\<close>, one attempt whose fetch raises after writing part of
  \<open>product_data.nat\<close>, the source as it is: the handler reaches \<open>shutil.rmtree\<close>, the name
  is not bound, the \<open>NameError\<close> leaves the task, \<open>on_failure\<close> writes \<open>FAILED\<close> with the
  \<open>NameError\<close>'s message, and the product directory and the partial file are still on
  disk.
\<close>

theorem failed_download_keeps_partial_artifact:
  "shutil_bound cfg_X1 = False
   \<and> snd (download_file cfg_X1 failing_attempt 0 download_X1 world_queued)
       = Raised (NameError ''shutil'')
   \<and> statuses_of ''X1'' (run_download_task cfg_X1 0 [failing_attempt] download_X1 world_queued)
       = [QUEUED, DOWNLOADING, FAILED]
   \<and> map (\<lambda>r. (status_of r, r c_error_message))
        (rows_of ''X1'' (run_download_task cfg_X1 0 [failing_attempt] download_X1 world_queued))
       = [(Some FAILED,
           Some (Text (''name '' @ [CHR 0x27] @ ''shutil'' @ [CHR 0x27] @ '' is not defined'')))]
   \<and> fs (run_download_task cfg_X1 0 [failing_attempt] download_X1 world_queued) raw_dir_X1
       = Some Dir
   \<and> fs (run_download_task cfg_X1 0 [failing_attempt] download_X1 world_queued)
        (raw_dir_X1 @ ''/product_data.nat'') = Some File"
  by (simp add: downloader_defs downloader_inputs apply_updates_def opt_set_def)

subsection \<open>Status sequences\<close>






lemma adds_write_files: "adds fid w (write_files d ns w) []"
  by (simp add: adds_def)



lemma queue_update_frame [simp]:
  "rows_of g (w\<lparr>processing_queue := q\<rparr>) = rows_of g w"
  "statuses_of g (w\<lparr>processing_queue := q\<rparr>) = statuses_of g w"
  by (simp_all add: rows_of_def statuses_of_def)















end
